theory Spec2Isabelle
  imports Complex_Main
begin

section \<open>Strings\<close>

text \<open>
  A JavaScript string is modelled as a \<^typ>\<open>string\<close>; one \<^typ>\<open>char\<close> stands for one
  code unit below 256, and \<open>length\<close> is the \<open>.length\<close> of the source.
\<close>

definition startsWith :: "string \<Rightarrow> string \<Rightarrow> bool" where
  "startsWith s p = (take (length p) s = p)"

fun includesStr :: "string \<Rightarrow> string \<Rightarrow> bool" where
  "includesStr [] p = (p = [])"
| "includesStr (c # cs) p = (startsWith (c # cs) p \<or> includesStr cs p)"

text \<open>\<open>String.prototype.toLowerCase\<close> on code units below 256 (ASCII and Latin-1 capitals).\<close>

definition toLowerChar :: "char \<Rightarrow> char" where
  "toLowerChar c =
     (let n = (of_char c :: nat)
      in if (65 \<le> n \<and> n \<le> 90) \<or> (192 \<le> n \<and> n \<le> 222 \<and> n \<noteq> 215)
         then char_of (n + 32) else c)"

definition toLowerCase :: "string \<Rightarrow> string" where
  "toLowerCase s = map toLowerChar s"

text \<open>The white space of \<open>\s\<close> and of \<open>trim\<close>: TAB, LF, VT, FF, CR, space, NBSP.\<close>

definition isWhiteSpace :: "char \<Rightarrow> bool" where
  "isWhiteSpace c = ((of_char c :: nat) \<in> {9, 10, 11, 12, 13, 32, 160})"

definition trim :: "string \<Rightarrow> string" where
  "trim s = rev (dropWhile isWhiteSpace (rev (dropWhile isWhiteSpace s)))"

definition substring0 :: "nat \<Rightarrow> string \<Rightarrow> string" where
  "substring0 n s = take n s"

text \<open>
  \<open>s.split(/[-_\s]+/)\<close>: every maximal run of separators ends one piece and starts the
  next, so a leading or trailing separator gives an empty piece and the empty string
  gives one empty piece. The flag says that the previous code unit was a separator.
\<close>

definition isWordSeparator :: "char \<Rightarrow> bool" where
  "isWordSeparator c = (c = CHR ''-'' \<or> c = CHR ''_'' \<or> isWhiteSpace c)"

fun splitWords_go :: "bool \<Rightarrow> string \<Rightarrow> string \<Rightarrow> string list" where
  "splitWords_go inSep cur [] = [rev cur]"
| "splitWords_go inSep cur (c # cs) =
     (if isWordSeparator c
      then (if inSep then splitWords_go True [] cs else rev cur # splitWords_go True [] cs)
      else splitWords_go False (c # cur) cs)"

definition splitWords :: "string \<Rightarrow> string list" where
  "splitWords s = splitWords_go False [] s"

text \<open>\<open>s.split(' ')\<close>: split at every single space.\<close>

fun splitSpace_go :: "string \<Rightarrow> string \<Rightarrow> string list" where
  "splitSpace_go cur [] = [rev cur]"
| "splitSpace_go cur (c # cs) =
     (if c = CHR '' '' then rev cur # splitSpace_go [] cs else splitSpace_go (c # cur) cs)"

definition splitSpace :: "string \<Rightarrow> string list" where
  "splitSpace s = splitSpace_go [] s"

fun join :: "string \<Rightarrow> string list \<Rightarrow> string" where
  "join sep [] = []"
| "join sep [p] = p"
| "join sep (p # q # ps) = p @ sep @ join sep (q # ps)"

text \<open>
  \<open>s.match(/key["']([^"']+)["']/)\<close>, the captured group of the leftmost match: after the
  key and an opening quote, the longest run of non-quote code units, which must be
  non-empty and followed by a quote.
\<close>

definition isQuote :: "char \<Rightarrow> bool" where
  "isQuote c = (c = CHR 0x22 \<or> c = CHR 0x27)"

definition matchQuotedAt :: "string \<Rightarrow> string \<Rightarrow> string option" where
  "matchQuotedAt key s =
     (if startsWith s key
      then (case drop (length key) s of
              [] \<Rightarrow> None
            | q # rest \<Rightarrow>
                if isQuote q
                then (let run = takeWhile (\<lambda>c. \<not> isQuote c) rest;
                          after = dropWhile (\<lambda>c. \<not> isQuote c) rest
                      in if run \<noteq> [] \<and> after \<noteq> [] then Some run else None)
                else None)
      else None)"

fun matchQuoted :: "string \<Rightarrow> string \<Rightarrow> string option" where
  "matchQuoted key [] = matchQuotedAt key []"
| "matchQuoted key (c # cs) =
     (case matchQuotedAt key (c # cs) of
        Some g \<Rightarrow> Some g
      | None \<Rightarrow> matchQuoted key cs)"

text \<open>
  \<open>/pattern/i.test(s)\<close> for a pattern of ASCII literals: some substring of \<open>s\<close> equals the
  pattern after canonicalisation. A code unit of 128 or more never canonicalises to an
  ASCII one, so only the ASCII letters are folded.
\<close>

definition canonicalize :: "char \<Rightarrow> char" where
  "canonicalize c =
     (let n = (of_char c :: nat) in if 97 \<le> n \<and> n \<le> 122 then char_of (n - 32) else c)"

definition testIgnoreCase :: "string \<Rightarrow> string \<Rightarrow> bool" where
  "testIgnoreCase pattern s = includesStr (map canonicalize s) (map canonicalize pattern)"

section \<open>Numbers\<close>

text \<open>
  What a configuration slot, a score or a cache entry of the source may hold: a number,
  \<open>NaN\<close> or \<open>undefined\<close>. A number is a \<^typ>\<open>real\<close>: there is no rounding, and the two
  infinities are left out. The scores that are computed from strings alone are never \<open>NaN\<close>
  and stay of type \<^typ>\<open>real\<close>.

  \<open>a < b\<close>, \<open>a > b\<close> and \<open>a >= b\<close> convert \<open>undefined\<close> to \<open>NaN\<close> and are false as soon as one
  side is \<open>NaN\<close>; \<open>a * b\<close>, \<open>a + b\<close>, \<open>Math.min\<close> and \<open>Math.max\<close> give \<open>NaN\<close> then.
\<close>

datatype jsvalue = Num real | NaN | Undefined

definition jsLess :: "jsvalue \<Rightarrow> jsvalue \<Rightarrow> bool" where
  "jsLess a b = (case (a, b) of (Num x, Num y) \<Rightarrow> x < y | _ \<Rightarrow> False)"

definition jsGreater :: "jsvalue \<Rightarrow> jsvalue \<Rightarrow> bool" where
  "jsGreater a b = (case (a, b) of (Num x, Num y) \<Rightarrow> x > y | _ \<Rightarrow> False)"

definition jsGreaterEq :: "jsvalue \<Rightarrow> jsvalue \<Rightarrow> bool" where
  "jsGreaterEq a b = (case (a, b) of (Num x, Num y) \<Rightarrow> x \<ge> y | _ \<Rightarrow> False)"

definition jsTimes :: "jsvalue \<Rightarrow> jsvalue \<Rightarrow> jsvalue" where
  "jsTimes a b = (case (a, b) of (Num x, Num y) \<Rightarrow> Num (x * y) | _ \<Rightarrow> NaN)"

definition jsPlus :: "jsvalue \<Rightarrow> jsvalue \<Rightarrow> jsvalue" where
  "jsPlus a b = (case (a, b) of (Num x, Num y) \<Rightarrow> Num (x + y) | _ \<Rightarrow> NaN)"

definition mathMin :: "jsvalue \<Rightarrow> jsvalue \<Rightarrow> jsvalue" where
  "mathMin a b = (case (a, b) of (Num x, Num y) \<Rightarrow> Num (min x y) | _ \<Rightarrow> NaN)"

definition mathMax :: "jsvalue \<Rightarrow> jsvalue \<Rightarrow> jsvalue" where
  "mathMax a b = (case (a, b) of (Num x, Num y) \<Rightarrow> Num (max x y) | _ \<Rightarrow> NaN)"

text \<open>The truth value of a \<open>debug\<close> slot: \<open>undefined\<close> (here \<open>None\<close>) is falsy.\<close>

definition truthy :: "bool option \<Rightarrow> bool" where
  "truthy b = (b = Some True)"

section \<open>Data model\<close>

record SelfHealingConfig =
  minSimilarityThreshold :: jsvalue
  levenshteinWeight :: jsvalue
  semanticWeight :: jsvalue
  structuralWeight :: jsvalue
  domCacheTTL :: jsvalue
  maxElementsToAnalyze :: jsvalue
  findTimeout :: jsvalue
  debug :: "bool option"

text \<open>
  \<open>Partial<SelfHealingConfig>\<close>: every key may be absent (\<open>None\<close>), and a key that is
  present may hold \<open>undefined\<close> or, for a number, \<open>NaN\<close>.
\<close>

record PartialConfig =
  p_minSimilarityThreshold :: "jsvalue option"
  p_levenshteinWeight :: "jsvalue option"
  p_semanticWeight :: "jsvalue option"
  p_structuralWeight :: "jsvalue option"
  p_domCacheTTL :: "jsvalue option"
  p_maxElementsToAnalyze :: "jsvalue option"
  p_findTimeout :: "jsvalue option"
  p_debug :: "bool option option"

definition DEFAULT_CONFIG :: SelfHealingConfig where
  "DEFAULT_CONFIG =
     \<lparr> minSimilarityThreshold = Num 0.1, levenshteinWeight = Num 0.7,
       semanticWeight = Num 0.2, structuralWeight = Num 0.1, domCacheTTL = Num 30000,
       maxElementsToAnalyze = Num 50, findTimeout = Num 5000, debug = Some False \<rparr>"

definition noOverrides :: PartialConfig where
  "noOverrides =
     \<lparr> p_minSimilarityThreshold = None, p_levenshteinWeight = None, p_semanticWeight = None,
       p_structuralWeight = None, p_domCacheTTL = None, p_maxElementsToAnalyze = None,
       p_findTimeout = None, p_debug = None \<rparr>"

text \<open>
  The object spread \<open>{ ...base, ...partial }\<close>: every key that is present in \<open>partial\<close>
  replaces the value of \<open>base\<close>, also when it holds \<open>undefined\<close>.
\<close>

definition spread :: "SelfHealingConfig \<Rightarrow> PartialConfig \<Rightarrow> SelfHealingConfig" where
  "spread base partial =
     \<lparr> minSimilarityThreshold =
         (case p_minSimilarityThreshold partial of Some v \<Rightarrow> v | None \<Rightarrow> minSimilarityThreshold base),
       levenshteinWeight =
         (case p_levenshteinWeight partial of Some v \<Rightarrow> v | None \<Rightarrow> levenshteinWeight base),
       semanticWeight =
         (case p_semanticWeight partial of Some v \<Rightarrow> v | None \<Rightarrow> semanticWeight base),
       structuralWeight =
         (case p_structuralWeight partial of Some v \<Rightarrow> v | None \<Rightarrow> structuralWeight base),
       domCacheTTL = (case p_domCacheTTL partial of Some v \<Rightarrow> v | None \<Rightarrow> domCacheTTL base),
       maxElementsToAnalyze =
         (case p_maxElementsToAnalyze partial of Some v \<Rightarrow> v | None \<Rightarrow> maxElementsToAnalyze base),
       findTimeout = (case p_findTimeout partial of Some v \<Rightarrow> v | None \<Rightarrow> findTimeout base),
       debug = (case p_debug partial of Some v \<Rightarrow> v | None \<Rightarrow> debug base) \<rparr>"

record SerializedElement =
  tagName :: string
  elementId :: string
  className :: string
  textContent :: string
  placeholder :: string
  elementName :: string
  elementType :: string
  role :: string
  ariaLabel :: string
  title :: string
  elementValue :: string
  href :: string
  src :: string
  alt :: string

text \<open>Every \<open>throw new Error(message)\<close> of the source, and a rejection coming from the page.\<close>

datatype error = Error string | PageRejection

definition InvalidSelectorError :: error where
  "InvalidSelectorError = Error ''Invalid selector provided''"

definition isConfigurationError :: "error \<Rightarrow> bool" where
  "isConfigurationError e =
     (e = Error ''minSimilarityThreshold must be between 0 and 1'' \<or>
      e = Error ''maxElementsToAnalyze must be between 1 and 1000'' \<or>
      e = Error ''findTimeout must be between 100ms and 60000ms'')"

text \<open>
  The page is the host's: \<open>waitForOriginal s\<close> says whether \<open>page.locator(s).waitFor\<close>
  resolves, \<open>evaluateAll\<close> is the outcome of the bulk extraction of \<open>getAllPageElements\<close>
  (\<open>None\<close>: the call rejects) and \<open>evaluateContext s\<close> the outcome of the extraction of
  \<open>getContextualElements\<close>. A locator is the page and the selector it is bound to.
\<close>

record PlaywrightPage =
  pageId :: nat
  waitForOriginal :: "string \<Rightarrow> bool"
  evaluateAll :: "SerializedElement list option"
  evaluateContext :: "string \<Rightarrow> SerializedElement list option"

datatype PlaywrightLocator = Locator nat string

record DomCacheEntry =
  elements :: "SerializedElement list"
  timestamp :: int

text \<open>The instance: its configuration, its two caches and its counter.\<close>

record PlaywrightAISelfHealing =
  config :: SelfHealingConfig
  domCache :: "nat \<rightharpoonup> DomCacheEntry"
  similarityCache :: "string \<rightharpoonup> jsvalue"
  debugElementCount :: nat

section \<open>Configuration\<close>

definition validateConfig :: "SelfHealingConfig \<Rightarrow> error option" where
  "validateConfig c =
     (if jsLess (minSimilarityThreshold c) (Num 0) \<or> jsGreater (minSimilarityThreshold c) (Num 1)
      then Some (Error ''minSimilarityThreshold must be between 0 and 1'')
      else if jsLess (maxElementsToAnalyze c) (Num 1) \<or>
              jsGreater (maxElementsToAnalyze c) (Num 1000)
      then Some (Error ''maxElementsToAnalyze must be between 1 and 1000'')
      else if jsLess (findTimeout c) (Num 100) \<or> jsGreater (findTimeout c) (Num 60000)
      then Some (Error ''findTimeout must be between 100ms and 60000ms'')
      else None)"

text \<open>The constructor: either the error thrown or the new instance.\<close>

definition constructor :: "PartialConfig \<Rightarrow> error + PlaywrightAISelfHealing" where
  "constructor partial =
     (let this = \<lparr> config = spread DEFAULT_CONFIG partial, domCache = Map.empty,
                   similarityCache = Map.empty, debugElementCount = 0 \<rparr>
      in case validateConfig (config this) of Some e \<Rightarrow> Inl e | None \<Rightarrow> Inr this)"

text \<open>
  \<open>updateConfig\<close> assigns \<open>this.config\<close> and then validates: the result is the error thrown,
  if any, and the instance as the call leaves it.
\<close>

definition updateConfig ::
  "PlaywrightAISelfHealing \<Rightarrow> PartialConfig \<Rightarrow> error option \<times> PlaywrightAISelfHealing" where
  "updateConfig this newConfig =
     (let this' = this\<lparr>config := spread (config this) newConfig\<rparr>
      in (validateConfig (config this'), this'))"

definition clearCache :: "PlaywrightAISelfHealing \<Rightarrow> PlaywrightAISelfHealing" where
  "clearCache this = this\<lparr>similarityCache := Map.empty\<rparr>"

section \<open>Selector validation\<close>

definition dangerousPatterns :: "string list" where
  "dangerousPatterns = [''javascript:'', ''data:'', ''vbscript:'', ''<script'', ''eval('']"

definition isValidSelector :: "string \<Rightarrow> bool" where
  "isValidSelector selector =
     (if selector = [] \<or> length selector > 1000 then False
      else \<not> list_ex (\<lambda>pattern. testIgnoreCase pattern selector) dangerousPatterns)"

section \<open>Identifier\<close>

text \<open>\<open>x || fallback\<close> on strings: the empty string is the only falsy one.\<close>

definition orElse :: "string \<Rightarrow> string \<Rightarrow> string" where
  "orElse s fallback = (if s = [] then fallback else s)"

text \<open>\<open>className.split(' ')[0]\<close>: the first piece, which always exists.\<close>

definition firstPiece :: "string \<Rightarrow> string" where
  "firstPiece s = (case splitSpace s of [] \<Rightarrow> [] | p # _ \<Rightarrow> p)"

text \<open>
  The identifier that \<open>getElementIdentifier\<close> builds. On strings nothing in its \<open>try\<close>
  block can throw, so the \<open>catch\<close> branch (which returns \<open>'element'\<close>) has no counterpart.
\<close>

definition elementIdentifier :: "SerializedElement \<Rightarrow> string" where
  "elementIdentifier element =
     (let tag = orElse (toLowerCase (tagName element)) ''div'';
          text = substring0 50 (trim (textContent element));
          parts =
            (if elementId element \<noteq> [] then [''id:'' @ elementId element] else []) @
            (if className element \<noteq> [] then [''class:'' @ firstPiece (className element)] else []) @
            (if elementName element \<noteq> [] then [''name:'' @ elementName element] else []) @
            (if elementType element \<noteq> [] then [''type:'' @ elementType element] else []) @
            (if placeholder element \<noteq> [] then [''placeholder:'' @ placeholder element] else []) @
            (if role element \<noteq> [] then [''role:'' @ role element] else []) @
            (if ariaLabel element \<noteq> [] then [''aria:'' @ ariaLabel element] else []) @
            (if text \<noteq> [] then [''text:'' @ text] else [])
      in if parts \<noteq> [] then tag @ ''['' @ join '','' parts @ '']'' else tag)"

text \<open>The call itself also counts: \<open>this.debugElementCount++\<close>. Console output is left out.\<close>

definition getElementIdentifier ::
  "PlaywrightAISelfHealing \<Rightarrow> SerializedElement \<Rightarrow> string \<times> PlaywrightAISelfHealing" where
  "getElementIdentifier this element =
     (elementIdentifier element, this\<lparr>debugElementCount := debugElementCount this + 1\<rparr>)"

section \<open>Similarity\<close>

text \<open>
  The matrix of \<open>calculateLevenshteinSimilarity\<close>, row by row: row \<open>i\<close> starts with \<open>i\<close>, and
  \<open>fill_row\<close> computes its entries for \<open>j = 1 .. len2\<close> from the row above (\<open>diag\<close> is
  \<open>matrix[i-1][j-1]\<close>, \<open>up\<close> is \<open>matrix[i-1][j]\<close>) and the entry to the left.
\<close>

fun fill_row :: "char \<Rightarrow> string \<Rightarrow> nat list \<Rightarrow> nat \<Rightarrow> nat list" where
  "fill_row c (d # ds) (diag # up # prevRow) left =
     (let cost = (if c = d then 0 else 1);
          v = min (min (up + 1) (left + 1)) (diag + cost)
      in v # fill_row c ds (up # prevRow) v)"
| "fill_row c _ _ left = []"

fun fill_rows :: "string \<Rightarrow> string \<Rightarrow> nat \<Rightarrow> nat list \<Rightarrow> nat list list" where
  "fill_rows [] str2 i prevRow = []"
| "fill_rows (c # cs) str2 i prevRow =
     (let row = i # fill_row c str2 prevRow i in row # fill_rows cs str2 (Suc i) row)"

definition levenshteinMatrix :: "string \<Rightarrow> string \<Rightarrow> nat list list" where
  "levenshteinMatrix str1 str2 =
     (let row0 = [0..<Suc (length str2)] in row0 # fill_rows str1 str2 1 row0)"

definition calculateLevenshteinSimilarity :: "string \<Rightarrow> string \<Rightarrow> real" where
  "calculateLevenshteinSimilarity str1 str2 =
     (let len1 = length str1; len2 = length str2
      in if len1 = 0 then (if len2 = 0 then 1 else 0)
         else if len2 = 0 then 0
         else (let maxLen = max len1 len2;
                   distance = levenshteinMatrix str1 str2 ! len1 ! len2;
                   similarity = 1 - real distance / real maxLen;
                   boosted = (if startsWith str2 str1 then similarity + 0.8
                              else if includesStr str2 str1 then similarity + 0.6
                              else similarity)
               in min boosted 1))"

definition wordMatches :: "string list \<Rightarrow> string \<Rightarrow> bool" where
  "wordMatches elementWords word =
     list_ex (\<lambda>ew. includesStr ew word \<or> includesStr word ew) elementWords"

definition semanticScore :: "string \<Rightarrow> string \<Rightarrow> real" where
  "semanticScore originalSelector elementText =
     (let originalWords = splitWords (toLowerCase originalSelector);
          elementWords = splitWords (toLowerCase elementText);
          matchCount = length (filter (wordMatches elementWords) originalWords)
      in if length originalWords > 0 then real matchCount / real (length originalWords) else 0)"

definition calculateSemanticSimilarity ::
  "PlaywrightAISelfHealing \<Rightarrow> string \<Rightarrow> SerializedElement \<Rightarrow> real \<times> PlaywrightAISelfHealing" where
  "calculateSemanticSimilarity this originalSelector element =
     (let (elementText, this1) = getElementIdentifier this element
      in (semanticScore originalSelector elementText, this1))"

definition calculateStructuralSimilarity :: "string \<Rightarrow> SerializedElement \<Rightarrow> real" where
  "calculateStructuralSimilarity originalSelector element =
     (let tag = toLowerCase (tagName element);
          cls = className element;
          eid = elementId element;
          s1 = (if tag \<noteq> [] \<and> includesStr originalSelector tag then 0.3 else 0);
          s2 = (if includesStr originalSelector eid \<and> eid \<noteq> [] then s1 + 0.4 else s1);
          s3 = (if cls \<noteq> [] \<and> includesStr originalSelector cls then s2 + 0.3 else s2)
      in min s3 1)"

definition typeBonus :: "string \<Rightarrow> SerializedElement \<Rightarrow> real" where
  "typeBonus originalSelector element =
     (if includesStr originalSelector ''input'' \<and>
         (tagName element = ''input'' \<or> tagName element = ''textarea'') then 0.4
      else if includesStr originalSelector ''button'' \<and>
         (tagName element = ''button'' \<or> tagName element = ''input'') then 0.4
      else if includesStr originalSelector ''select'' \<and> tagName element = ''select'' then 0.4
      else if includesStr originalSelector ''textarea'' \<and> tagName element = ''textarea'' then 0.4
      else if (includesStr originalSelector ''input'' \<or> includesStr originalSelector ''button'') \<and>
         tagName element \<in> set [''html'', ''body'', ''div'', ''span'', ''a''] then - 0.3
      else 0)"

definition attributeBonus :: "string \<Rightarrow> SerializedElement \<Rightarrow> real" where
  "attributeBonus originalSelector element =
     (let b1 =
            (if includesStr originalSelector ''name='' \<and> elementName element \<noteq> []
             then (case matchQuoted ''name='' originalSelector of
                     None \<Rightarrow> 0
                   | Some selectorName \<Rightarrow>
                       if selectorName = elementName element then 0.5
                       else (let nameSimilarity =
                                   calculateLevenshteinSimilarity selectorName (elementName element)
                             in if nameSimilarity > 0.5 then nameSimilarity * 0.3 else 0))
             else 0);
          b2 = (if includesStr originalSelector ''input'' \<and>
                   (elementName element = ''q'' \<or> elementName element = ''search'' \<or>
                    elementName element = ''query'')
                then b1 + 0.3 else b1);
          b3 = (if includesStr originalSelector ''button'' \<and>
                   (elementName element = ''btnK'' \<or> elementName element = ''btnG'' \<or>
                    elementType element = ''submit'')
                then b2 + 0.4 else b2);
          b4 = (if includesStr originalSelector ''Gmail'' \<and>
                   includesStr (toLowerCase (textContent element)) ''gmail''
                then b3 + 0.4 else b3);
          b5 = (if includesStr originalSelector ''Images'' \<and>
                   includesStr (toLowerCase (textContent element)) ''images''
                then b4 + 0.4 else b4);
          b6 = (if includesStr originalSelector ''placeholder='' \<and> placeholder element \<noteq> [] \<and>
                   matchQuoted ''placeholder='' originalSelector = Some (placeholder element)
                then b5 + 0.3 else b5);
          b7 = (if includesStr originalSelector ''type='' \<and> elementType element \<noteq> [] \<and>
                   matchQuoted ''type='' originalSelector = Some (elementType element)
                then b6 + 0.3 else b6)
      in b7)"

text \<open>
  \<open>calculateComprehensiveSimilarity\<close>: the cache key is \<open>`${originalSelector}-${elementText}`\<close>;
  a hit returns the stored number, a miss computes \<open>totalScore\<close>, stores it and returns
  \<open>Math.max(0, Math.min(totalScore, 1))\<close>.
\<close>

definition calculateComprehensiveSimilarity ::
  "PlaywrightAISelfHealing \<Rightarrow> string \<Rightarrow> SerializedElement
     \<Rightarrow> jsvalue \<times> PlaywrightAISelfHealing" where
  "calculateComprehensiveSimilarity this originalSelector element =
     (let (elementText, this1) = getElementIdentifier this element;
          cacheKey = originalSelector @ ''-'' @ elementText
      in case similarityCache this1 cacheKey of
           Some cached \<Rightarrow> (cached, this1)
         | None \<Rightarrow>
             (let levenshteinScore = calculateLevenshteinSimilarity originalSelector elementText;
                  (semScore, this2) = calculateSemanticSimilarity this1 originalSelector element;
                  structuralScore = calculateStructuralSimilarity originalSelector element;
                  total =
                    jsPlus
                      (jsPlus
                        (jsPlus
                          (jsPlus (jsTimes (Num levenshteinScore) (levenshteinWeight (config this2)))
                                  (jsTimes (Num semScore) (semanticWeight (config this2))))
                          (jsTimes (Num structuralScore) (structuralWeight (config this2))))
                        (Num (typeBonus originalSelector element)))
                      (Num (attributeBonus originalSelector element));
                  this3 = this2\<lparr>similarityCache := (similarityCache this2)(cacheKey \<mapsto> total)\<rparr>
              in (mathMax (Num 0) (mathMin total (Num 1)), this3)))"

definition calculatePatternSimilarity ::
  "PlaywrightAISelfHealing \<Rightarrow> string \<Rightarrow> SerializedElement \<Rightarrow> SerializedElement list
     \<Rightarrow> real \<times> PlaywrightAISelfHealing" where
  "calculatePatternSimilarity this originalSelector element contextualElements =
     (let (elementText, this1) = getElementIdentifier this element;
          basicSimilarity = calculateLevenshteinSimilarity originalSelector elementText;
          patternBonus = (if length contextualElements > 0 then 0.2 else 0)
      in (min (basicSimilarity + patternBonus) 1, this1))"

fun relevanceLoop :: "SerializedElement \<Rightarrow> SerializedElement list \<Rightarrow> real \<Rightarrow> real" where
  "relevanceLoop element [] relevanceScore = relevanceScore"
| "relevanceLoop element (contextElement # rest) relevanceScore =
     (let r1 = (if tagName element = tagName contextElement
                then relevanceScore + 0.2 else relevanceScore);
          r2 = (if className element \<noteq> [] \<and> className contextElement \<noteq> [] \<and>
                   className element = className contextElement
                then r1 + 0.1 else r1)
      in relevanceLoop element rest r2)"

definition calculateContextualRelevance ::
  "SerializedElement \<Rightarrow> SerializedElement list \<Rightarrow> real" where
  "calculateContextualRelevance element contextualElements =
     (if length contextualElements = 0 then 0.5
      else min (relevanceLoop element contextualElements 0) 1)"

section \<open>Snapshots of the page\<close>

text \<open>
  \<open>getAllPageElements\<close>, with \<open>now\<close> the reading of \<open>Date.now()\<close>. The source awaits
  \<open>page.evaluate\<close> outside any \<open>try\<close>: a rejection leaves the method as it came.
\<close>

definition getAllPageElements ::
  "PlaywrightAISelfHealing \<Rightarrow> PlaywrightPage \<Rightarrow> int
     \<Rightarrow> (error + SerializedElement list) \<times> PlaywrightAISelfHealing" where
  "getAllPageElements this page now =
     (let fresh =
            (case domCache this (pageId page) of
               None \<Rightarrow> None
             | Some cached \<Rightarrow>
                 if jsLess (Num (real_of_int (now - timestamp cached))) (domCacheTTL (config this))
                 then Some (elements cached) else None)
      in case fresh of
           Some es \<Rightarrow> (Inr es, this)
         | None \<Rightarrow>
             (case evaluateAll page of
                None \<Rightarrow> (Inl PageRejection, this)
              | Some es \<Rightarrow>
                  (Inr es,
                   this\<lparr>domCache :=
                          (domCache this)(pageId page \<mapsto> \<lparr>elements = es, timestamp = now\<rparr>)\<rparr>)))"

text \<open>\<open>getContextualElements\<close> catches the rejection and returns the empty array.\<close>

definition getContextualElements :: "PlaywrightPage \<Rightarrow> string \<Rightarrow> SerializedElement list" where
  "getContextualElements page originalSelector =
     (case evaluateContext page originalSelector of None \<Rightarrow> [] | Some es \<Rightarrow> es)"

text \<open>
  \<open>array.slice(0, end)\<close>: an \<open>undefined\<close> end is the length of the array, \<open>NaN\<close> is 0, a
  number is truncated towards zero, and a negative end counts from the back of the array.
\<close>

definition sliceTo :: "jsvalue \<Rightarrow> 'a list \<Rightarrow> 'a list" where
  "sliceTo end xs =
     (case end of
        Undefined \<Rightarrow> xs
      | NaN \<Rightarrow> []
      | Num e \<Rightarrow>
          (let k = (if e \<ge> 0 then \<lfloor>e\<rfloor> else \<lceil>e\<rceil>);
               len = int (length xs);
               final = (if k < 0 then max (len + k) 0 else min k len)
           in take (nat final) xs))"

section \<open>Selector synthesis\<close>

definition generateOptimalSelector :: "SerializedElement \<Rightarrow> string" where
  "generateOptimalSelector element =
     (let cleanText = trim (textContent element);
          classes = filter (\<lambda>c. c \<noteq> [] \<and> \<not> includesStr c '' '') (splitSpace (className element))
      in if elementId element \<noteq> [] then ''#'' @ elementId element
         else if tagName element = ''a'' \<and> textContent element \<noteq> [] \<and>
                 length cleanText > 0 \<and> length cleanText < 50
         then ''text='' @ cleanText
         else if elementName element \<noteq> [] then ''[name=\"'' @ elementName element @ ''\"]''
         else if elementType element \<noteq> [] \<and> tagName element = ''input''
         then ''input[type=\"'' @ elementType element @ ''\"]''
         else if placeholder element \<noteq> []
         then ''[placeholder=\"'' @ placeholder element @ ''\"]''
         else if role element \<noteq> [] then ''[role=\"'' @ role element @ ''\"]''
         else if className element \<noteq> [] \<and> length classes > 0
         then tagName element @ ''.'' @ (case classes of [] \<Rightarrow> [] | c # _ \<Rightarrow> c)
         else orElse (tagName element) ''div'')"

section \<open>The four strategies\<close>

type_synonym findResult = "(error + PlaywrightLocator option) \<times> PlaywrightAISelfHealing"

definition healedLocator :: "PlaywrightPage \<Rightarrow> SerializedElement \<Rightarrow> PlaywrightLocator" where
  "healedLocator page element = Locator (pageId page) (generateOptimalSelector element)"

text \<open>
  The loop of \<open>findElementUniversal\<close>; in debug mode each of the first five elements is
  identified once more for the log line.
\<close>

fun universalLoop ::
  "PlaywrightAISelfHealing \<Rightarrow> string \<Rightarrow> SerializedElement list
     \<Rightarrow> SerializedElement option \<Rightarrow> jsvalue \<Rightarrow> nat
     \<Rightarrow> SerializedElement option \<times> PlaywrightAISelfHealing" where
  "universalLoop this originalSelector [] bestMatch bestScore elementCount = (bestMatch, this)"
| "universalLoop this originalSelector (element # rest) bestMatch bestScore elementCount =
     (let (score, this1) = calculateComprehensiveSimilarity this originalSelector element;
          this2 = (if truthy (debug (config this1)) \<and> elementCount < 5
                   then snd (getElementIdentifier this1 element) else this1)
      in if jsGreater score bestScore \<and> jsGreaterEq score (minSimilarityThreshold (config this2))
         then universalLoop this2 originalSelector rest (Some element) score (elementCount + 1)
         else universalLoop this2 originalSelector rest bestMatch bestScore (elementCount + 1))"

definition findElementUniversal ::
  "PlaywrightAISelfHealing \<Rightarrow> PlaywrightPage \<Rightarrow> int \<Rightarrow> string \<Rightarrow> findResult" where
  "findElementUniversal this page now originalSelector =
     (if \<not> isValidSelector originalSelector then (Inl (Error ''Invalid selector provided''), this)
      else if waitForOriginal page originalSelector
      then (Inr (Some (Locator (pageId page) originalSelector)), this)
      else (case getAllPageElements this page now of
              (Inl e, this1) \<Rightarrow> (Inl e, this1)
            | (Inr allElements, this1) \<Rightarrow>
                (case universalLoop this1 originalSelector
                        (sliceTo (maxElementsToAnalyze (config this1)) allElements) None (Num 0) 0 of
                   (Some bestMatch, this2) \<Rightarrow> (Inr (Some (healedLocator page bestMatch)), this2)
                 | (None, this2) \<Rightarrow> (Inr None, this2))))"

fun simpleLoop ::
  "PlaywrightAISelfHealing \<Rightarrow> string \<Rightarrow> SerializedElement list
     \<Rightarrow> SerializedElement option \<times> PlaywrightAISelfHealing" where
  "simpleLoop this originalSelector [] = (None, this)"
| "simpleLoop this originalSelector (element # rest) =
     (let (elementText, this1) = getElementIdentifier this element;
          similarity = calculateLevenshteinSimilarity originalSelector elementText
      in if jsGreaterEq (Num similarity) (minSimilarityThreshold (config this1))
         then (Some element, this1)
         else simpleLoop this1 originalSelector rest)"

definition findElementSimple ::
  "PlaywrightAISelfHealing \<Rightarrow> PlaywrightPage \<Rightarrow> int \<Rightarrow> string \<Rightarrow> findResult" where
  "findElementSimple this page now originalSelector =
     (if \<not> isValidSelector originalSelector then (Inl (Error ''Invalid selector provided''), this)
      else if waitForOriginal page originalSelector
      then (Inr (Some (Locator (pageId page) originalSelector)), this)
      else (case getAllPageElements this page now of
              (Inl e, this1) \<Rightarrow> (Inl e, this1)
            | (Inr allElements, this1) \<Rightarrow>
                (case simpleLoop this1 originalSelector
                        (sliceTo (maxElementsToAnalyze (config this1)) allElements) of
                   (Some element, this2) \<Rightarrow> (Inr (Some (healedLocator page element)), this2)
                 | (None, this2) \<Rightarrow> (Inr None, this2))))"

fun complexLoop ::
  "PlaywrightAISelfHealing \<Rightarrow> string \<Rightarrow> SerializedElement list
     \<Rightarrow> (SerializedElement \<times> real) list
     \<Rightarrow> (SerializedElement \<times> real) list \<times> PlaywrightAISelfHealing" where
  "complexLoop this originalSelector [] candidates = (candidates, this)"
| "complexLoop this originalSelector (element # rest) candidates =
     (let (semScore, this1) = calculateSemanticSimilarity this originalSelector element;
          structuralScore = calculateStructuralSimilarity originalSelector element;
          total = semScore * 0.6 + structuralScore * 0.4
      in if jsGreaterEq (Num total) (minSimilarityThreshold (config this1))
         then complexLoop this1 originalSelector rest (candidates @ [(element, total)])
         else complexLoop this1 originalSelector rest candidates)"

text \<open>
  \<open>candidates.sort((a, b) => b.score - a.score)\<close>: a stable sort by descending score,
  as \<open>sort_key\<close> on the negated score is.
\<close>

definition sortByScore :: "(SerializedElement \<times> real) list \<Rightarrow> (SerializedElement \<times> real) list" where
  "sortByScore candidates = sort_key (\<lambda>c. - snd c) candidates"

definition findElementComplex ::
  "PlaywrightAISelfHealing \<Rightarrow> PlaywrightPage \<Rightarrow> int \<Rightarrow> string \<Rightarrow> findResult" where
  "findElementComplex this page now originalSelector =
     (if \<not> isValidSelector originalSelector then (Inl (Error ''Invalid selector provided''), this)
      else if waitForOriginal page originalSelector
      then (Inr (Some (Locator (pageId page) originalSelector)), this)
      else (case getAllPageElements this page now of
              (Inl e, this1) \<Rightarrow> (Inl e, this1)
            | (Inr allElements, this1) \<Rightarrow>
                (case complexLoop this1 originalSelector
                        (sliceTo (maxElementsToAnalyze (config this1)) allElements) [] of
                   (candidates, this2) \<Rightarrow>
                     (case sortByScore candidates of
                        [] \<Rightarrow> (Inr None, this2)
                      | bestCandidate # _ \<Rightarrow>
                          (Inr (Some (healedLocator page (fst bestCandidate))), this2)))))"

fun advancedLoop ::
  "PlaywrightAISelfHealing \<Rightarrow> string \<Rightarrow> SerializedElement list \<Rightarrow> SerializedElement list
     \<Rightarrow> SerializedElement option \<Rightarrow> real
     \<Rightarrow> SerializedElement option \<times> PlaywrightAISelfHealing" where
  "advancedLoop this originalSelector contextualElements [] bestMatch bestScore = (bestMatch, this)"
| "advancedLoop this originalSelector contextualElements (element # rest) bestMatch bestScore =
     (let (patternScore, this1) =
            calculatePatternSimilarity this originalSelector element contextualElements;
          contextScore = calculateContextualRelevance element contextualElements;
          total = patternScore * 0.7 + contextScore * 0.3
      in if total > bestScore \<and> jsGreaterEq (Num total) (minSimilarityThreshold (config this1))
         then advancedLoop this1 originalSelector contextualElements rest (Some element) total
         else advancedLoop this1 originalSelector contextualElements rest bestMatch bestScore)"

definition findElementAdvanced ::
  "PlaywrightAISelfHealing \<Rightarrow> PlaywrightPage \<Rightarrow> int \<Rightarrow> string \<Rightarrow> findResult" where
  "findElementAdvanced this page now originalSelector =
     (if \<not> isValidSelector originalSelector then (Inl (Error ''Invalid selector provided''), this)
      else if waitForOriginal page originalSelector
      then (Inr (Some (Locator (pageId page) originalSelector)), this)
      else (case getAllPageElements this page now of
              (Inl e, this1) \<Rightarrow> (Inl e, this1)
            | (Inr allElements, this1) \<Rightarrow>
                (case advancedLoop this1 originalSelector
                        (getContextualElements page originalSelector)
                        (sliceTo (maxElementsToAnalyze (config this1)) allElements) None 0 of
                   (Some bestMatch, this2) \<Rightarrow> (Inr (Some (healedLocator page bestMatch)), this2)
                 | (None, this2) \<Rightarrow> (Inr None, this2))))"

section \<open>The specification's conditions\<close>

text \<open>
  The ranges the specification gives for a configuration: threshold in \<open>[0,1]\<close>,
  \<open>maxElementsToAnalyze\<close> in \<open>[1,1000]\<close>, \<open>findTimeout\<close> in \<open>[100,60000]\<close>, bounds included.
  \<open>NaN\<close> and \<open>undefined\<close> lie in no range.
\<close>

definition outsideRange :: "real \<Rightarrow> real \<Rightarrow> jsvalue \<Rightarrow> bool" where
  "outsideRange lo hi v = (case v of Num x \<Rightarrow> x < lo \<or> hi < x | _ \<Rightarrow> True)"

definition violatesRanges :: "SelfHealingConfig \<Rightarrow> bool" where
  "violatesRanges c =
     (outsideRange 0 1 (minSimilarityThreshold c) \<or>
      outsideRange 1 1000 (maxElementsToAnalyze c) \<or>
      outsideRange 100 60000 (findTimeout c))"

text \<open>
  The specification's rejected selectors: empty, longer than 1000, or with a substring that
  equals a denylisted pattern up to the case of ASCII letters.
\<close>

definition matchesIgnoringCase :: "string \<Rightarrow> string \<Rightarrow> bool" where
  "matchesIgnoringCase s pattern =
     (\<exists>u v w. s = u @ v @ w \<and> map canonicalize v = map canonicalize pattern)"

definition rejectedSelector :: "string \<Rightarrow> bool" where
  "rejectedSelector s =
     (s = [] \<or> length s > 1000 \<or>
      matchesIgnoringCase s ''javascript:'' \<or> matchesIgnoringCase s ''data:'' \<or>
      matchesIgnoringCase s ''vbscript:'' \<or> matchesIgnoringCase s ''<script'' \<or>
      matchesIgnoringCase s ''eval('')"

text \<open>
  The specification's selector synthesis: a list of rules in priority order, each a
  condition and the selector it gives; the first applicable rule wins, and the generic tag
  \<open>div\<close> is the fallback. \<open>clean\<close> is what is done to the text before the anchor rule looks
  at it: nothing in the specification as stated.
\<close>

definition classTokens :: "string \<Rightarrow> string list" where
  "classTokens cls = filter (\<lambda>c. c \<noteq> []) (splitSpace cls)"

definition synthesisRules ::
  "(string \<Rightarrow> string) \<Rightarrow> SerializedElement \<Rightarrow> (bool \<times> string) list" where
  "synthesisRules clean e =
     [(elementId e \<noteq> [], ''#'' @ elementId e),
      (tagName e = ''a'' \<and> clean (textContent e) \<noteq> [] \<and> length (clean (textContent e)) < 50,
         ''text='' @ clean (textContent e)),
      (elementName e \<noteq> [], ''[name=\"'' @ elementName e @ ''\"]''),
      (tagName e = ''input'' \<and> elementType e \<noteq> [], ''input[type=\"'' @ elementType e @ ''\"]''),
      (placeholder e \<noteq> [], ''[placeholder=\"'' @ placeholder e @ ''\"]''),
      (role e \<noteq> [], ''[role=\"'' @ role e @ ''\"]''),
      (classTokens (className e) \<noteq> [], tagName e @ ''.'' @ concat (take 1 (classTokens (className e)))),
      (tagName e \<noteq> [], tagName e)]"

definition firstApplicable :: "(bool \<times> string) list \<Rightarrow> string \<Rightarrow> string" where
  "firstApplicable rules fallback =
     (case filter fst rules of [] \<Rightarrow> fallback | rule # _ \<Rightarrow> snd rule)"

definition synthesizeAsStated :: "SerializedElement \<Rightarrow> string" where
  "synthesizeAsStated e = firstApplicable (synthesisRules (\<lambda>t. t) e) ''div''"

definition synthesizeTrimmed :: "SerializedElement \<Rightarrow> string" where
  "synthesizeTrimmed e = firstApplicable (synthesisRules trim e) ''div''"

section \<open>Fixtures\<close>

definition blankElement :: SerializedElement where
  "blankElement =
     \<lparr> tagName = ''div'', elementId = [], className = [], textContent = [], placeholder = [],
       elementName = [], elementType = [], role = [], ariaLabel = [], title = [],
       elementValue = [], href = [], src = [], alt = [] \<rparr>"

text \<open>An instance as the constructor makes it from the defaults.\<close>

definition defaultInstance :: PlaywrightAISelfHealing where
  "defaultInstance =
     \<lparr> config = DEFAULT_CONFIG, domCache = Map.empty, similarityCache = Map.empty,
       debugElementCount = 0 \<rparr>"

text \<open>A search field: \<open><input class="gLFyf" name="q" type="text">\<close>.\<close>

definition searchField :: SerializedElement where
  "searchField =
     blankElement\<lparr> tagName := ''input'', className := ''gLFyf'', elementName := ''q'',
                   elementType := ''text'' \<rparr>"

text \<open>A page on which no selector resolves and every extraction is rejected.\<close>

definition rejectingPage :: PlaywrightPage where
  "rejectingPage =
     \<lparr> pageId = 0, waitForOriginal = (\<lambda>s. False), evaluateAll = None,
       evaluateContext = (\<lambda>s. None) \<rparr>"

text \<open>A page on which no selector resolves and that shows the given elements.\<close>

definition pageShowing :: "SerializedElement list \<Rightarrow> PlaywrightPage" where
  "pageShowing es =
     \<lparr> pageId = 0, waitForOriginal = (\<lambda>s. False), evaluateAll = Some es,
       evaluateContext = (\<lambda>s. Some []) \<rparr>"

text \<open>
  An anchor whose text fills the 50 code units of a snapshot and ends with a space
  (\<open>"Read the full terms and conditions of our service now"\<close>, trimmed and cut at 50),
  and an anchor whose text is a single space.
\<close>

definition termsLink :: SerializedElement where
  "termsLink =
     blankElement\<lparr> tagName := ''a'',
                   textContent := ''Read the full terms and conditions of our service '',
                   elementName := ''terms'' \<rparr>"

definition spaceLink :: SerializedElement where
  "spaceLink = blankElement\<lparr> tagName := ''a'', textContent := '' '', elementName := ''gap'' \<rparr>"

text \<open>
  A synthetic page of 5 list items \<open><li id="item00">\<close> to \<open><li id="item04">\<close>, and an
  instance that analyses at most 3 elements.
\<close>

definition numberedItem :: "nat \<Rightarrow> SerializedElement" where
  "numberedItem i =
     blankElement\<lparr> tagName := ''li'',
                   elementId := ''item'' @ [char_of (48 + i div 10), char_of (48 + i mod 10)] \<rparr>"

definition fiveItems :: "SerializedElement list" where
  "fiveItems = map numberedItem [0..<5]"

definition threeInstance :: PlaywrightAISelfHealing where
  "threeInstance =
     defaultInstance\<lparr> config := DEFAULT_CONFIG\<lparr> maxElementsToAnalyze := Num 3 \<rparr> \<rparr>"

text \<open>
  A page with a heading \<open><h2>My blog now</h2>\<close> followed by a link
  \<open><a id="go-to-my-cart" class="cart-link">Please view my cart (3 items) now</a>\<close>, a selector
  that no longer resolves on it, and an instance whose composite score weighs the semantic
  and the structural score as the Complex strategy does.
\<close>

definition blogHeading :: SerializedElement where
  "blogHeading = blankElement\<lparr> tagName := ''h2'', textContent := ''My blog now'' \<rparr>"

definition cartLink :: SerializedElement where
  "cartLink =
     blankElement\<lparr> tagName := ''a'', elementId := ''go-to-my-cart'', className := ''cart-link'',
                   textContent := ''Please view my cart (3 items) now'' \<rparr>"

definition cartSelector :: string where
  "cartSelector = ''a#go-to-my-cart.cart-link >> text=view my cart (3 items) now''"

definition semanticInstance :: PlaywrightAISelfHealing where
  "semanticInstance =
     defaultInstance\<lparr> config := DEFAULT_CONFIG\<lparr> levenshteinWeight := Num 0,
                                                semanticWeight := Num 0.6,
                                                structuralWeight := Num 0.4 \<rparr> \<rparr>"

section \<open>Lexical similarity\<close>

lemma length_fill_row:
  "length prevRow = Suc (length ds) \<Longrightarrow> length (fill_row c ds prevRow left) = length ds"
proof (induction ds arbitrary: prevRow left)
  case Nil
  then show ?case by simp
next
  case (Cons d ds)
  then obtain diag up rest where p: "prevRow = diag # up # rest"
    by (cases prevRow; cases "tl prevRow") auto
  with Cons show ?case by (simp add: Let_def)
qed

text \<open>An entry is at most the entry diagonally above it plus the substitution cost.\<close>

lemma fill_row_diag:
  "length prevRow = Suc (length ds) \<Longrightarrow> j < length ds \<Longrightarrow>
   fill_row c ds prevRow left ! j \<le> prevRow ! j + (if c = ds ! j then 0 else 1)"
proof (induction ds arbitrary: prevRow left j)
  case Nil
  then show ?case by simp
next
  case (Cons d ds)
  then obtain diag up rest where p: "prevRow = diag # up # rest"
    by (cases prevRow; cases "tl prevRow") auto
  show ?case
  proof (cases j)
    case 0
    with p show ?thesis by (simp add: Let_def)
  next
    case (Suc k)
    with Cons.prems p
    have "fill_row c ds (up # rest) v ! k \<le> (up # rest) ! k + (if c = ds ! k then 0 else 1)" for v
      by (intro Cons.IH) auto
    with Suc p show ?thesis by (simp add: Let_def)
  qed
qed

text \<open>When the rows run over a suffix of the second string, the diagonal stays at zero.\<close>

lemma fill_rows_diagonal:
  "length prevRow = Suc (length (pre @ cs)) \<Longrightarrow> prevRow ! length pre = 0 \<Longrightarrow> k < length cs \<Longrightarrow>
   fill_rows cs (pre @ cs) i prevRow ! k ! (length pre + k + 1) = 0"
proof (induction cs arbitrary: pre prevRow i k)
  case Nil
  then show ?case by simp
next
  case (Cons c cs)
  let ?str2 = "pre @ c # cs"
  let ?row = "i # fill_row c ?str2 prevRow i"
  have len: "length ?row = Suc (length ?str2)"
    using Cons.prems(1) by (simp add: length_fill_row)
  have "fill_row c ?str2 prevRow i ! length pre
          \<le> prevRow ! length pre + (if c = ?str2 ! length pre then 0 else 1)"
    using Cons.prems(1) by (intro fill_row_diag) auto
  with Cons.prems(2) have zero: "?row ! (length pre + 1) = 0" by simp
  show ?case
  proof (cases k)
    case 0
    with zero show ?thesis by (simp add: Let_def)
  next
    case (Suc k')
    have "fill_rows cs ((pre @ [c]) @ cs) (Suc i) ?row ! k' ! (length (pre @ [c]) + k' + 1) = 0"
      using len zero Cons.prems(3) Suc by (intro Cons.IH) auto
    with Suc show ?thesis by (simp add: Let_def)
  qed
qed

lemma levenshtein_distance_self:
  assumes "s \<noteq> []"
  shows "levenshteinMatrix s s ! length s ! length s = 0"
proof -
  from assms obtain k where k: "length s = Suc k" by (cases s) auto
  have "fill_rows s ([] @ s) 1 [0..<Suc (length s)] ! k ! (length ([]::string) + k + 1) = 0"
    using k by (intro fill_rows_diagonal) (auto simp: nth_upt simp del: upt_Suc)
  then show ?thesis using k by (simp add: levenshteinMatrix_def Let_def del: upt_Suc)
qed

lemma startsWith_self: "startsWith s s"
  by (simp add: startsWith_def)

text \<open>
  Claim C6. The lexical similarity of a non-empty string with itself is 1, that of the
  empty string with itself is 1, and that of a non-empty string with the empty string is 0
  (in particular for \<open>"x"\<close>).
\<close>

theorem lex_reflexive_and_empty:
  "(\<forall>s. s \<noteq> [] \<longrightarrow> calculateLevenshteinSimilarity s s = 1) \<and>
   calculateLevenshteinSimilarity [] [] = 1 \<and>
   (\<forall>s. s \<noteq> [] \<longrightarrow> calculateLevenshteinSimilarity s [] = 0) \<and>
   calculateLevenshteinSimilarity ''x'' [] = 0"
  by (simp add: calculateLevenshteinSimilarity_def Let_def levenshtein_distance_self
      startsWith_self)

theorem lex_reflexive_and_empty_witness:
  "''login-button'' \<noteq> [] \<and>
   calculateLevenshteinSimilarity ''login-button'' ''login-button'' = 1 \<and>
   calculateLevenshteinSimilarity ''login-button'' [] = 0"
  using lex_reflexive_and_empty by simp

text \<open>
  Claim C7. The lexical similarity is not commutative: \<open>lex("pass", "pass-input")\<close> is 1
  (distance 6 of 10, plus the prefix bonus, capped), \<open>lex("pass-input", "pass")\<close> is 0.4
  (the same distance, no bonus, since \<open>"pass"\<close> neither starts with nor contains
  \<open>"pass-input"\<close>).
\<close>

theorem lex_not_commutative:
  "calculateLevenshteinSimilarity ''pass'' ''pass-input'' = 1 \<and>
   calculateLevenshteinSimilarity ''pass-input'' ''pass'' = 2 / 5 \<and>
   startsWith ''pass-input'' ''pass'' \<and>
   \<not> startsWith ''pass'' ''pass-input'' \<and> \<not> includesStr ''pass'' ''pass-input'' \<and>
   calculateLevenshteinSimilarity ''pass'' ''pass-input'' \<noteq>
     calculateLevenshteinSimilarity ''pass-input'' ''pass''"
  by code_simp

section \<open>Selector validation\<close>

lemma startsWith_iff: "startsWith s p \<longleftrightarrow> (\<exists>w. s = p @ w)"
  unfolding startsWith_def
  by (metis append_eq_conv_conj append_take_drop_id)

lemma includesStr_iff: "includesStr s p \<longleftrightarrow> (\<exists>u w. s = u @ p @ w)"
proof (induction s)
  case Nil
  then show ?case by auto
next
  case (Cons c cs)
  have "(\<exists>u w. c # cs = u @ p @ w) \<longleftrightarrow> (\<exists>w. c # cs = p @ w) \<or> (\<exists>u w. cs = u @ p @ w)"
    by (auto simp: Cons_eq_append_conv)
  with Cons show ?case by (simp add: startsWith_iff)
qed

lemma testIgnoreCase_iff: "testIgnoreCase pattern s \<longleftrightarrow> matchesIgnoringCase s pattern"
proof
  assume "testIgnoreCase pattern s"
  then obtain u w where "map canonicalize s = u @ map canonicalize pattern @ w"
    unfolding testIgnoreCase_def includesStr_iff by blast
  then have "\<exists>us vs. s = us @ vs \<and> u = map canonicalize us \<and>
      map canonicalize pattern @ w = map canonicalize vs"
    by (simp only: map_eq_append_conv)
  then obtain us vs where 1: "s = us @ vs"
    and 2: "map canonicalize pattern @ w = map canonicalize vs"
    by blast
  from 2 have "\<exists>v ws. vs = v @ ws \<and> map canonicalize pattern = map canonicalize v \<and>
      w = map canonicalize ws"
    by (simp only: append_eq_map_conv)
  then obtain v ws where "vs = v @ ws" "map canonicalize v = map canonicalize pattern"
    by metis
  with 1 show "matchesIgnoringCase s pattern"
    unfolding matchesIgnoringCase_def by blast
next
  assume "matchesIgnoringCase s pattern"
  then obtain u v w where "s = u @ v @ w" "map canonicalize v = map canonicalize pattern"
    unfolding matchesIgnoringCase_def by blast
  then have "map canonicalize s = map canonicalize u @ map canonicalize pattern @ map canonicalize w"
    by simp
  then show "testIgnoreCase pattern s"
    unfolding testIgnoreCase_def includesStr_iff by blast
qed

lemma isValidSelector_iff: "isValidSelector s \<longleftrightarrow> \<not> rejectedSelector s"
  by (simp add: isValidSelector_def rejectedSelector_def dangerousPatterns_def testIgnoreCase_iff)


lemma getAllPageElements_error:
  "fst (getAllPageElements this page now) \<noteq> Inl (Error m)"
  by (auto simp: getAllPageElements_def Let_def split: option.splits)

lemma universal_not_invalid:
  "isValidSelector s \<Longrightarrow> fst (findElementUniversal this page now s) \<noteq> Inl (Error m)"
  using getAllPageElements_error[of this page now m]
  by (auto simp: findElementUniversal_def split: prod.splits sum.splits option.splits)

lemma simple_not_invalid:
  "isValidSelector s \<Longrightarrow> fst (findElementSimple this page now s) \<noteq> Inl (Error m)"
  using getAllPageElements_error[of this page now m]
  by (auto simp: findElementSimple_def split: prod.splits sum.splits option.splits)

lemma complex_not_invalid:
  "isValidSelector s \<Longrightarrow> fst (findElementComplex this page now s) \<noteq> Inl (Error m)"
  using getAllPageElements_error[of this page now m]
  by (auto simp: findElementComplex_def split: prod.splits sum.splits option.splits list.splits)

lemma advanced_not_invalid:
  "isValidSelector s \<Longrightarrow> fst (findElementAdvanced this page now s) \<noteq> Inl (Error m)"
  using getAllPageElements_error[of this page now m]
  by (auto simp: findElementAdvanced_def split: prod.splits sum.splits option.splits)


lemma invalid_all:
  assumes "\<not> isValidSelector s"
  shows "findElementUniversal this page now s = (Inl InvalidSelectorError, this)"
    and "findElementSimple this page now s = (Inl InvalidSelectorError, this)"
    and "findElementComplex this page now s = (Inl InvalidSelectorError, this)"
    and "findElementAdvanced this page now s = (Inl InvalidSelectorError, this)"
  using assms
  by (simp_all add: findElementUniversal_def findElementSimple_def findElementComplex_def
      findElementAdvanced_def InvalidSelectorError_def)

lemma valid_none:
  assumes "isValidSelector s"
  shows "fst (findElementUniversal this page now s) \<noteq> Inl InvalidSelectorError"
    and "fst (findElementSimple this page now s) \<noteq> Inl InvalidSelectorError"
    and "fst (findElementComplex this page now s) \<noteq> Inl InvalidSelectorError"
    and "fst (findElementAdvanced this page now s) \<noteq> Inl InvalidSelectorError"
  unfolding InvalidSelectorError_def
  using assms
  by (rule universal_not_invalid simple_not_invalid complex_not_invalid advanced_not_invalid)+

lemma validation_examples:
  "\<not> isValidSelector ''javascript:alert(1)''" "\<not> isValidSelector ''<script>x</script>''"
  "isValidSelector ''[data-testid=\"login\"]''"
  by code_simp+

text \<open>
  Claim C3. Each of the four operations fails with the invalid-selector error, whatever the
  instance, the page and the clock, and leaves the instance as it was (nothing of the page is
  consulted), exactly when the selector is empty, longer than 1000, or matches one of
  \<open>javascript:\<close>, \<open>data:\<close>, \<open>vbscript:\<close>, \<open><script\<close>, \<open>eval(\<close> ignoring case; for any other
  selector no call fails with that error. \<open>javascript:alert(1)\<close> and
  \<open><script>x</script>\<close> are rejected, \<open>[data-testid="login"]\<close> is accepted.
\<close>

theorem selector_validation:
  "(\<forall>this page now. findElementUniversal this page now s = (Inl InvalidSelectorError, this)) = rejectedSelector s \<and>
   (\<forall>this page now. findElementSimple this page now s = (Inl InvalidSelectorError, this)) = rejectedSelector s \<and>
   (\<forall>this page now. findElementComplex this page now s = (Inl InvalidSelectorError, this)) = rejectedSelector s \<and>
   (\<forall>this page now. findElementAdvanced this page now s = (Inl InvalidSelectorError, this)) = rejectedSelector s \<and>
   (\<exists>this page now. fst (findElementUniversal this page now s) = Inl InvalidSelectorError) = rejectedSelector s \<and>
   (\<exists>this page now. fst (findElementSimple this page now s) = Inl InvalidSelectorError) = rejectedSelector s \<and>
   (\<exists>this page now. fst (findElementComplex this page now s) = Inl InvalidSelectorError) = rejectedSelector s \<and>
   (\<exists>this page now. fst (findElementAdvanced this page now s) = Inl InvalidSelectorError) = rejectedSelector s \<and>
   rejectedSelector ''javascript:alert(1)'' \<and> rejectedSelector ''<script>x</script>'' \<and>
   \<not> rejectedSelector ''[data-testid=\"login\"]''"
proof -
  have ex: "rejectedSelector ''javascript:alert(1)'' \<and> rejectedSelector ''<script>x</script>'' \<and>
   \<not> rejectedSelector ''[data-testid=\"login\"]''"
    using validation_examples by (simp add: isValidSelector_iff)
  show ?thesis
  proof (cases "isValidSelector s")
    case True
    then have nr: "\<not> rejectedSelector s" by (simp add: isValidSelector_iff)
    have a: "\<not> (\<forall>this page now. findElementUniversal this page now s = (Inl InvalidSelectorError, this))"
      using valid_none(1)[OF True] by (metis fst_conv)
    have b: "\<not> (\<forall>this page now. findElementSimple this page now s = (Inl InvalidSelectorError, this))"
      using valid_none(2)[OF True] by (metis fst_conv)
    have c: "\<not> (\<forall>this page now. findElementComplex this page now s = (Inl InvalidSelectorError, this))"
      using valid_none(3)[OF True] by (metis fst_conv)
    have d: "\<not> (\<forall>this page now. findElementAdvanced this page now s = (Inl InvalidSelectorError, this))"
      using valid_none(4)[OF True] by (metis fst_conv)
    show ?thesis using a b c d nr ex valid_none[OF True] by simp
  next
    case False
    then have r: "rejectedSelector s" by (simp add: isValidSelector_iff)
    show ?thesis using r ex invalid_all[OF False] by simp
  qed
qed

theorem selector_validation_witness:
  "(\<forall>this page now. findElementUniversal this page now ''EVAL(1)'' = (Inl InvalidSelectorError, this)) \<and>
   rejectedSelector ''EVAL(1)''"
proof -
  have "\<not> isValidSelector ''EVAL(1)''" by code_simp
  then have r: "rejectedSelector ''EVAL(1)''" by (simp only: isValidSelector_iff not_not)
  from selector_validation[of "''EVAL(1)''"]
  have "(\<forall>this page now. findElementUniversal this page now ''EVAL(1)'' = (Inl InvalidSelectorError, this)) = rejectedSelector ''EVAL(1)''"
    by (rule conjunct1)
  with r show ?thesis by (simp only: simp_thms)
qed

section \<open>Configuration validation\<close>

text \<open>
  A failing validation means a violated range, for every configuration; on numbers the
  validation fails exactly when a range is violated; the weights do not enter.
\<close>

lemma validateConfig_sound:
  "validateConfig c = Some e \<Longrightarrow> isConfigurationError e \<and> violatesRanges c"
  by (auto simp: validateConfig_def violatesRanges_def outsideRange_def isConfigurationError_def
      jsLess_def jsGreater_def split: if_splits jsvalue.splits)

lemma validateConfig_on_numbers:
  assumes "minSimilarityThreshold c = Num t" "maxElementsToAnalyze c = Num m" "findTimeout c = Num f"
  shows "(\<exists>e. validateConfig c = Some e \<and> isConfigurationError e) = violatesRanges c"
    and "(validateConfig c = None) = (\<not> violatesRanges c)"
  using assms
  by (auto simp: validateConfig_def violatesRanges_def outsideRange_def isConfigurationError_def
      jsLess_def jsGreater_def)

lemma validateConfig_weights:
  "validateConfig (c\<lparr>levenshteinWeight := wl, semanticWeight := ws, structuralWeight := wt\<rparr>)
     = validateConfig c"
  by (simp add: validateConfig_def)

text \<open>
  Claim C4. The constructor and \<open>updateConfig\<close> are claimed to fail exactly when the merged
  configuration has the threshold outside \<open>[0,1]\<close>, \<open>maxElementsToAnalyze\<close> outside
  \<open>[1,1000]\<close> or \<open>findTimeout\<close> outside \<open>[100,60000]\<close>. Every comparison of
  \<open>validateConfig\<close> is false on \<open>NaN\<close> and on \<open>undefined\<close>: the constructor accepts
  \<open>{minSimilarityThreshold: NaN}\<close> and \<open>{maxElementsToAnalyze: undefined}\<close>, and \<open>updateConfig\<close>
  accepts \<open>{findTimeout: NaN}\<close>, although these values lie in no range.
\<close>

theorem validation_accepts_nan_and_undefined:
  "violatesRanges (spread DEFAULT_CONFIG (noOverrides\<lparr>p_minSimilarityThreshold := Some NaN\<rparr>)) \<and>
   constructor (noOverrides\<lparr>p_minSimilarityThreshold := Some NaN\<rparr>)
     = Inr (defaultInstance\<lparr>config := DEFAULT_CONFIG\<lparr>minSimilarityThreshold := NaN\<rparr>\<rparr>) \<and>
   violatesRanges (spread DEFAULT_CONFIG (noOverrides\<lparr>p_maxElementsToAnalyze := Some Undefined\<rparr>)) \<and>
   constructor (noOverrides\<lparr>p_maxElementsToAnalyze := Some Undefined\<rparr>)
     = Inr (defaultInstance\<lparr>config := DEFAULT_CONFIG\<lparr>maxElementsToAnalyze := Undefined\<rparr>\<rparr>) \<and>
   updateConfig defaultInstance (noOverrides\<lparr>p_findTimeout := Some NaN\<rparr>)
     = (None, defaultInstance\<lparr>config := DEFAULT_CONFIG\<lparr>findTimeout := NaN\<rparr>\<rparr>) \<and>
   violatesRanges (DEFAULT_CONFIG\<lparr>findTimeout := NaN\<rparr>)"
  by (simp add: violatesRanges_def outsideRange_def spread_def noOverrides_def DEFAULT_CONFIG_def
      constructor_def updateConfig_def validateConfig_def defaultInstance_def jsLess_def
      jsGreater_def)

section \<open>Evaluations and selector synthesis\<close>

text \<open>On a cache miss with numbers as weights the returned score is clamped into \<open>[0,1]\<close>.\<close>

lemma comprehensive_miss_clamped:
  assumes "similarityCache this (s @ ''-'' @ elementIdentifier e) = None"
    and "levenshteinWeight (config this) = Num wl" "semanticWeight (config this) = Num ws"
    and "structuralWeight (config this) = Num wt"
  shows "\<exists>r. fst (calculateComprehensiveSimilarity this s e) = Num r \<and> 0 \<le> r \<and> r \<le> 1"
  using assms
  by (simp add: calculateComprehensiveSimilarity_def calculateSemanticSimilarity_def
      getElementIdentifier_def Let_def jsPlus_def jsTimes_def mathMin_def mathMax_def)

text \<open>
  Claim C1. The composite score is claimed to lie in \<open>[0,1]\<close> on every call, and so is the
  number kept in the similarity cache. On a fresh default instance, the selector
  \<open>input[name="q"]\<close> and the search field score \<open>1.45\<close> before clamping: the first call
  returns 1 and stores \<open>1.45\<close>, the second call is served from the cache and returns \<open>1.45\<close>.
\<close>

theorem cached_score_exceeds_one:
  "fst (calculateComprehensiveSimilarity defaultInstance ''input[name=\"q\"]'' searchField) = Num 1 \<and>
   similarityCache
     (snd (calculateComprehensiveSimilarity defaultInstance ''input[name=\"q\"]'' searchField))
     (''input[name=\"q\"]'' @ ''-'' @ elementIdentifier searchField) = Some (Num (29 / 20)) \<and>
   fst (calculateComprehensiveSimilarity
          (snd (calculateComprehensiveSimilarity defaultInstance ''input[name=\"q\"]'' searchField))
          ''input[name=\"q\"]'' searchField) = Num (29 / 20) \<and>
   (29 / 20 :: real) > 1"
  by code_simp

lemma login_valid: "isValidSelector ''#login''"
  by code_simp

text \<open>
  Claim C2. When the bulk extraction is rejected, \<open>getAllPageElements\<close> is claimed to give
  the empty sequence, so that the operation ends with no match. On a page that rejects the
  extraction, \<open>getAllPageElements\<close> and the four operations end with the rejection, while
  \<open>getContextualElements\<close> on the same page gives the empty sequence.
\<close>

theorem extraction_failure_propagates:
  "fst (getAllPageElements defaultInstance rejectingPage 0) = Inl PageRejection \<and>
   fst (findElementUniversal defaultInstance rejectingPage 0 ''#login'') = Inl PageRejection \<and>
   fst (findElementSimple defaultInstance rejectingPage 0 ''#login'') = Inl PageRejection \<and>
   fst (findElementComplex defaultInstance rejectingPage 0 ''#login'') = Inl PageRejection \<and>
   fst (findElementAdvanced defaultInstance rejectingPage 0 ''#login'') = Inl PageRejection \<and>
   getContextualElements rejectingPage ''#login'' = []"
  using login_valid
  by (simp add: getAllPageElements_def findElementUniversal_def findElementSimple_def
      findElementComplex_def findElementAdvanced_def getContextualElements_def
      rejectingPage_def defaultInstance_def)

text \<open>
  Claim C10. A failing \<open>updateConfig\<close> is claimed to leave the stored configuration as it
  was. On the instance made from the defaults, \<open>updateConfig({minSimilarityThreshold: 5})\<close>
  throws and the instance keeps the threshold 5: \<open>findElementSimple\<close>, which healed
  \<open>input[name="q"]\<close> to \<open>[name="q"]\<close> before the call, finds no match after it.
\<close>

theorem failed_update_keeps_merged_config:
  "constructor noOverrides = Inr defaultInstance \<and>
   fst (updateConfig defaultInstance (noOverrides\<lparr>p_minSimilarityThreshold := Some (Num 5)\<rparr>))
     = Some (Error ''minSimilarityThreshold must be between 0 and 1'') \<and>
   minSimilarityThreshold (config defaultInstance) = Num (1 / 10) \<and>
   minSimilarityThreshold
     (config (snd (updateConfig defaultInstance
                     (noOverrides\<lparr>p_minSimilarityThreshold := Some (Num 5)\<rparr>))))
     = Num 5 \<and>
   fst (findElementSimple defaultInstance (pageShowing [searchField]) 0 ''input[name=\"q\"]'')
     = Inr (Some (Locator 0 ''[name=\"q\"]'')) \<and>
   fst (findElementSimple
          (snd (updateConfig defaultInstance
                  (noOverrides\<lparr>p_minSimilarityThreshold := Some (Num 5)\<rparr>)))
          (pageShowing [searchField]) 0 ''input[name=\"q\"]'')
     = Inr None"
proof -
  have 1: "constructor noOverrides = Inr defaultInstance"
    by (simp add: constructor_def noOverrides_def spread_def DEFAULT_CONFIG_def validateConfig_def
        defaultInstance_def jsLess_def jsGreater_def)
  have 2: "fst (updateConfig defaultInstance (noOverrides\<lparr>p_minSimilarityThreshold := Some (Num 5)\<rparr>))
     = Some (Error ''minSimilarityThreshold must be between 0 and 1'')"
    by code_simp
  have 3: "minSimilarityThreshold (config defaultInstance) = Num (1 / 10)"
    by code_simp
  have 4: "minSimilarityThreshold
     (config (snd (updateConfig defaultInstance
                     (noOverrides\<lparr>p_minSimilarityThreshold := Some (Num 5)\<rparr>))))
     = Num 5"
    by code_simp
  have 5: "fst (findElementSimple defaultInstance (pageShowing [searchField]) 0 ''input[name=\"q\"]'')
     = Inr (Some (Locator 0 ''[name=\"q\"]''))"
    by code_simp
  have 6: "fst (findElementSimple
          (snd (updateConfig defaultInstance
                  (noOverrides\<lparr>p_minSimilarityThreshold := Some (Num 5)\<rparr>)))
          (pageShowing [searchField]) 0 ''input[name=\"q\"]'')
     = Inr None"
    by code_simp
  from 1 2 3 4 5 6 show ?thesis by (intro conjI)
qed

text \<open>
  Claim C9, as stated: the anchor rule applies to non-empty text shorter than 50. The code
  looks at the trimmed text. An anchor whose 50 code units of text end with a space gets a
  text selector where the stated rules give the name selector, and an anchor whose text is
  one space gets the name selector where the stated rules give a text selector.
\<close>

theorem synthesis_as_stated_counterexample:
  "generateOptimalSelector termsLink = ''text=Read the full terms and conditions of our service'' \<and>
   synthesizeAsStated termsLink = ''[name=\"terms\"]'' \<and>
   generateOptimalSelector spaceLink = ''[name=\"gap\"]'' \<and>
   synthesizeAsStated spaceLink = ''text= ''"
  by code_simp

lemma splitSpace_go_no_space:
  "c \<in> set (splitSpace_go cur s) \<Longrightarrow> CHR '' '' \<notin> set cur \<Longrightarrow> CHR '' '' \<notin> set c"
proof (induction s arbitrary: cur)
  case Nil
  then show ?case by auto
next
  case (Cons x xs)
  show ?case
  proof (cases "x = CHR '' ''")
    case True
    with Cons.prems have "c = rev cur \<or> c \<in> set (splitSpace_go [] xs)" by auto
    then show ?thesis
    proof
      assume "c = rev cur"
      with Cons.prems(2) show ?thesis by simp
    next
      assume "c \<in> set (splitSpace_go [] xs)"
      then show ?thesis by (rule Cons.IH) simp
    qed
  next
    case False
    with Cons.prems have "c \<in> set (splitSpace_go (x # cur) xs)" by simp
    then show ?thesis by (rule Cons.IH) (use False Cons.prems(2) in auto)
  qed
qed

lemma includesStr_single: "includesStr c [x] \<longleftrightarrow> x \<in> set c"
  by (induction c) (auto simp: startsWith_def)

lemma classes_eq:
  "filter (\<lambda>c. c \<noteq> [] \<and> \<not> includesStr c '' '') (splitSpace cls) = classTokens cls"
  unfolding classTokens_def splitSpace_def
  by (rule filter_cong) (auto simp: includesStr_single dest: splitSpace_go_no_space)

lemma trim_Nil: "trim [] = []"
  by (simp add: trim_def)

text \<open>
  Claim C9, amended. For every snapshot, \<open>generateOptimalSelector\<close> returns the selector of
  the first applicable rule in the order: \<open>#id\<close>; \<open>text=\<close> and the trimmed text for an anchor
  whose trimmed text is non-empty and shorter than 50; \<open>[name="..."]\<close>; \<open>input[type="..."]\<close>
  for an input with a type; \<open>[placeholder="..."]\<close>; \<open>[role="..."]\<close>; the tag, a dot and the
  first non-empty class token; the tag; and \<open>div\<close> otherwise. It is a total function: no
  snapshot makes it fail. Where trimming does not change the text, this is the order as
  stated.
\<close>

theorem synthesis_priority:
  "generateOptimalSelector e = synthesizeTrimmed e \<and>
   (trim (textContent e) = textContent e \<longrightarrow> generateOptimalSelector e = synthesizeAsStated e)"
proof -
  have a: "generateOptimalSelector e = synthesizeTrimmed e"
    unfolding generateOptimalSelector_def synthesizeTrimmed_def synthesisRules_def
      firstApplicable_def Let_def classes_eq
    by (cases "classTokens (className e)")
       (auto simp: orElse_def trim_Nil classTokens_def splitSpace_def)
  have b: "synthesizeTrimmed e = synthesizeAsStated e" if "trim (textContent e) = textContent e"
    using that by (simp add: synthesizeTrimmed_def synthesizeAsStated_def synthesisRules_def)
  from a b show ?thesis by simp
qed

theorem synthesis_priority_witness:
  "trim (textContent searchField) = textContent searchField \<and>
   generateOptimalSelector searchField = synthesizeAsStated searchField \<and>
   generateOptimalSelector searchField = ''[name=\"q\"]''"
proof -
  have t: "trim (textContent searchField) = textContent searchField" by code_simp
  have g: "generateOptimalSelector searchField = ''[name=\"q\"]''" by code_simp
  from synthesis_priority[of searchField]
  have "trim (textContent searchField) = textContent searchField \<longrightarrow>
      generateOptimalSelector searchField = synthesizeAsStated searchField"
    by (rule conjunct2)
  from this t have "generateOptimalSelector searchField = synthesizeAsStated searchField"
    by (rule mp)
  with t g show ?thesis by (intro conjI)
qed

section \<open>The scan limit\<close>

lemma sliceTo_take: "0 \<le> m \<Longrightarrow> sliceTo (Num m) xs = take (nat \<lfloor>m\<rfloor>) xs"
  by (auto simp: sliceTo_def Let_def min_def)

lemma getElementIdentifier_frame:
  "getElementIdentifier (this\<lparr>domCache := d\<rparr>) e =
     (fst (getElementIdentifier this e), (snd (getElementIdentifier this e))\<lparr>domCache := d\<rparr>)"
  by (simp add: getElementIdentifier_def)

lemma getElementIdentifier_config:
  "config (snd (getElementIdentifier this e)) = config this"
  by (simp add: getElementIdentifier_def)

lemma calculateSemanticSimilarity_frame:
  "calculateSemanticSimilarity (this\<lparr>domCache := d\<rparr>) s e =
     (fst (calculateSemanticSimilarity this s e),
      (snd (calculateSemanticSimilarity this s e))\<lparr>domCache := d\<rparr>)"
  by (simp add: calculateSemanticSimilarity_def getElementIdentifier_def)

lemma calculatePatternSimilarity_frame:
  "calculatePatternSimilarity (this\<lparr>domCache := d\<rparr>) s e ctx =
     (fst (calculatePatternSimilarity this s e ctx),
      (snd (calculatePatternSimilarity this s e ctx))\<lparr>domCache := d\<rparr>)"
  by (simp add: calculatePatternSimilarity_def getElementIdentifier_def Let_def)

lemma calculateComprehensiveSimilarity_frame:
  "calculateComprehensiveSimilarity (this\<lparr>domCache := d\<rparr>) s e =
     (fst (calculateComprehensiveSimilarity this s e),
      (snd (calculateComprehensiveSimilarity this s e))\<lparr>domCache := d\<rparr>)"
  by (simp add: calculateComprehensiveSimilarity_def calculateSemanticSimilarity_def
      getElementIdentifier_def Let_def split: option.splits)

lemma calculateComprehensiveSimilarity_config:
  "config (snd (calculateComprehensiveSimilarity this s e)) = config this"
  by (simp add: calculateComprehensiveSimilarity_def calculateSemanticSimilarity_def
      getElementIdentifier_def Let_def split: option.splits)

lemma calculateComprehensiveSimilarity_count:
  "debugElementCount (snd (calculateComprehensiveSimilarity this s e)) \<le> debugElementCount this + 2"
  by (simp add: calculateComprehensiveSimilarity_def calculateSemanticSimilarity_def
      getElementIdentifier_def Let_def split: option.splits)

lemma universalLoop_frame:
  "universalLoop (this\<lparr>domCache := d\<rparr>) s es best bs cnt =
     (fst (universalLoop this s es best bs cnt),
      (snd (universalLoop this s es best bs cnt))\<lparr>domCache := d\<rparr>)"
proof (induction es arbitrary: this best bs cnt)
  case Nil
  then show ?case by simp
next
  case (Cons e es)
  show ?case
    by (simp add: Let_def case_prod_beta calculateComprehensiveSimilarity_frame
        getElementIdentifier_frame getElementIdentifier_config Cons.IH)
qed

lemma simpleLoop_frame:
  "simpleLoop (this\<lparr>domCache := d\<rparr>) s es =
     (fst (simpleLoop this s es), (snd (simpleLoop this s es))\<lparr>domCache := d\<rparr>)"
proof (induction es arbitrary: this)
  case Nil
  then show ?case by simp
next
  case (Cons e es)
  show ?case
    by (simp add: Let_def case_prod_beta getElementIdentifier_frame Cons.IH)
qed

lemma complexLoop_frame:
  "complexLoop (this\<lparr>domCache := d\<rparr>) s es cands =
     (fst (complexLoop this s es cands), (snd (complexLoop this s es cands))\<lparr>domCache := d\<rparr>)"
proof (induction es arbitrary: this cands)
  case Nil
  then show ?case by simp
next
  case (Cons e es)
  show ?case
    by (simp add: Let_def case_prod_beta calculateSemanticSimilarity_frame Cons.IH)
qed

lemma advancedLoop_frame:
  "advancedLoop (this\<lparr>domCache := d\<rparr>) s ctx es best bs =
     (fst (advancedLoop this s ctx es best bs),
      (snd (advancedLoop this s ctx es best bs))\<lparr>domCache := d\<rparr>)"
proof (induction es arbitrary: this best bs)
  case Nil
  then show ?case by simp
next
  case (Cons e es)
  show ?case
    by (simp add: Let_def case_prod_beta calculatePatternSimilarity_frame Cons.IH)
qed


lemma calculateSemanticSimilarity_count:
  "debugElementCount (snd (calculateSemanticSimilarity this s e)) = debugElementCount this + 1"
  by (simp add: calculateSemanticSimilarity_def getElementIdentifier_def)

lemma calculatePatternSimilarity_count:
  "debugElementCount (snd (calculatePatternSimilarity this s e ctx)) = debugElementCount this + 1"
  by (simp add: calculatePatternSimilarity_def getElementIdentifier_def Let_def)

lemma universalLoop_step:
  "\<exists>best' bs'. universalLoop this s (e # es) best bs cnt =
     universalLoop
       (if truthy (debug (config (snd (calculateComprehensiveSimilarity this s e)))) \<and> cnt < 5
        then snd (getElementIdentifier (snd (calculateComprehensiveSimilarity this s e)) e)
        else snd (calculateComprehensiveSimilarity this s e))
       s es best' bs' (Suc cnt)"
  by (simp add: Let_def case_prod_beta) blast

lemma universalLoop_count:
  "debugElementCount (snd (universalLoop this s es best bs cnt))
     \<le> debugElementCount this + 3 * length es"
proof (induction es arbitrary: this best bs cnt)
  case Nil
  then show ?case by simp
next
  case (Cons e es)
  let ?t = "snd (calculateComprehensiveSimilarity this s e)"
  let ?t2 = "if truthy (debug (config ?t)) \<and> cnt < 5 then snd (getElementIdentifier ?t e) else ?t"
  have "debugElementCount ?t2 \<le> debugElementCount ?t + 1"
    by (simp add: getElementIdentifier_def)
  with calculateComprehensiveSimilarity_count[of this s e]
  have b: "debugElementCount ?t2 \<le> debugElementCount this + 3" by linarith
  from universalLoop_step[of this s e es best bs cnt]
  obtain best' bs' where
    "universalLoop this s (e # es) best bs cnt = universalLoop ?t2 s es best' bs' (Suc cnt)"
    by blast
  then have "debugElementCount (snd (universalLoop this s (e # es) best bs cnt))
      \<le> debugElementCount ?t2 + 3 * length es"
    using Cons.IH[of ?t2 best' bs' "Suc cnt"] by simp
  with b show ?case by simp
qed

lemma simpleLoop_count:
  "debugElementCount (snd (simpleLoop this s es)) \<le> debugElementCount this + length es"
proof (induction es arbitrary: this)
  case Nil
  then show ?case by simp
next
  case (Cons e es)
  show ?case
    using Cons.IH[of "snd (getElementIdentifier this e)"]
    by (simp add: Let_def case_prod_beta getElementIdentifier_def)
qed

lemma complexLoop_count:
  "debugElementCount (snd (complexLoop this s es cands)) = debugElementCount this + length es"
proof (induction es arbitrary: this cands)
  case Nil
  then show ?case by simp
next
  case (Cons e es)
  show ?case
    by (simp add: Let_def case_prod_beta Cons.IH calculateSemanticSimilarity_count)
qed

lemma advancedLoop_count:
  "debugElementCount (snd (advancedLoop this s ctx es best bs)) = debugElementCount this + length es"
proof (induction es arbitrary: this best bs)
  case Nil
  then show ?case by simp
next
  case (Cons e es)
  show ?case
    by (simp add: Let_def case_prod_beta Cons.IH calculatePatternSimilarity_count)
qed

lemma getAllPageElements_fresh:
  assumes "domCache this (pageId page) = None" "evaluateAll page = Some xs"
  shows "getAllPageElements this page now =
     (Inr xs, this\<lparr>domCache := (domCache this)(pageId page \<mapsto> \<lparr>elements = xs, timestamp = now\<rparr>)\<rparr>)"
  using assms by (simp add: getAllPageElements_def)

text \<open>What each operation does once the original selector has failed on a page without a cached snapshot.\<close>

lemma universal_heal:
  assumes "isValidSelector s" "\<not> waitForOriginal page s"
    and "domCache this (pageId page) = None" "evaluateAll page = Some xs"
    and "maxElementsToAnalyze (config this) = Num m" "0 \<le> m"
  shows "findElementUniversal this page now s =
     (case fst (universalLoop this s (take (nat \<lfloor>m\<rfloor>) xs) None (Num 0) 0) of
        Some b \<Rightarrow> Inr (Some (healedLocator page b)) | None \<Rightarrow> Inr None,
      (snd (universalLoop this s (take (nat \<lfloor>m\<rfloor>) xs) None (Num 0) 0))
        \<lparr>domCache := (domCache this)(pageId page \<mapsto> \<lparr>elements = xs, timestamp = now\<rparr>)\<rparr>)"
  using assms(1,2,5,6)
  by (simp add: findElementUniversal_def getAllPageElements_fresh[OF assms(3,4)] sliceTo_take
      universalLoop_frame split: option.splits)

lemma simple_heal:
  assumes "isValidSelector s" "\<not> waitForOriginal page s"
    and "domCache this (pageId page) = None" "evaluateAll page = Some xs"
    and "maxElementsToAnalyze (config this) = Num m" "0 \<le> m"
  shows "findElementSimple this page now s =
     (case fst (simpleLoop this s (take (nat \<lfloor>m\<rfloor>) xs)) of
        Some b \<Rightarrow> Inr (Some (healedLocator page b)) | None \<Rightarrow> Inr None,
      (snd (simpleLoop this s (take (nat \<lfloor>m\<rfloor>) xs)))
        \<lparr>domCache := (domCache this)(pageId page \<mapsto> \<lparr>elements = xs, timestamp = now\<rparr>)\<rparr>)"
  using assms(1,2,5,6)
  by (simp add: findElementSimple_def getAllPageElements_fresh[OF assms(3,4)] sliceTo_take
      simpleLoop_frame split: option.splits)

lemma complex_heal:
  assumes "isValidSelector s" "\<not> waitForOriginal page s"
    and "domCache this (pageId page) = None" "evaluateAll page = Some xs"
    and "maxElementsToAnalyze (config this) = Num m" "0 \<le> m"
  shows "findElementComplex this page now s =
     (case sortByScore (fst (complexLoop this s (take (nat \<lfloor>m\<rfloor>) xs) [])) of
        [] \<Rightarrow> Inr None | c # _ \<Rightarrow> Inr (Some (healedLocator page (fst c))),
      (snd (complexLoop this s (take (nat \<lfloor>m\<rfloor>) xs) []))
        \<lparr>domCache := (domCache this)(pageId page \<mapsto> \<lparr>elements = xs, timestamp = now\<rparr>)\<rparr>)"
  using assms(1,2,5,6)
  by (simp add: findElementComplex_def getAllPageElements_fresh[OF assms(3,4)] sliceTo_take
      complexLoop_frame split: list.splits)

lemma advanced_heal:
  assumes "isValidSelector s" "\<not> waitForOriginal page s"
    and "domCache this (pageId page) = None" "evaluateAll page = Some xs"
    and "maxElementsToAnalyze (config this) = Num m" "0 \<le> m"
  shows "findElementAdvanced this page now s =
     (case fst (advancedLoop this s (getContextualElements page s)
                  (take (nat \<lfloor>m\<rfloor>) xs) None 0) of
        Some b \<Rightarrow> Inr (Some (healedLocator page b)) | None \<Rightarrow> Inr None,
      (snd (advancedLoop this s (getContextualElements page s)
                  (take (nat \<lfloor>m\<rfloor>) xs) None 0))
        \<lparr>domCache := (domCache this)(pageId page \<mapsto> \<lparr>elements = xs, timestamp = now\<rparr>)\<rparr>)"
  using assms(1,2,5,6)
  by (simp add: findElementAdvanced_def getAllPageElements_fresh[OF assms(3,4)] sliceTo_take
      advancedLoop_frame split: option.splits)


lemma healedLocator_evaluateAll:
  "healedLocator (page\<lparr>evaluateAll := r\<rparr>) b = healedLocator page b"
  by (simp add: healedLocator_def)

lemma getContextualElements_evaluateAll:
  "getContextualElements (page\<lparr>evaluateAll := r\<rparr>) s = getContextualElements page s"
  by (simp add: getContextualElements_def)

text \<open>
  With a non-negative number as limit, the four operations look only at the first
  \<open>maxElementsToAnalyze\<close> snapshots of a page without a cached snapshot: a page that shows
  the same first snapshots and anything after them gives the same result, the same
  similarity cache and the same number of identifier computations, at most three per
  analysed element.
\<close>

lemma scan_reads_prefix_only:
  assumes limit: "maxElementsToAnalyze (config this) = Num m"
    and nonneg: "0 \<le> m"
    and sel: "isValidSelector s"
    and fails: "\<not> waitForOriginal page s"
    and nocache: "domCache this (pageId page) = None"
    and shown: "evaluateAll page = Some xs"
    and agree: "take (nat \<lfloor>m\<rfloor>) ys =
                take (nat \<lfloor>m\<rfloor>) xs"
  shows "\<forall>find \<in> set [findElementUniversal, findElementSimple, findElementComplex,
                       findElementAdvanced].
     fst (find this (page\<lparr>evaluateAll := Some ys\<rparr>) now s) = fst (find this page now s) \<and>
     similarityCache (snd (find this (page\<lparr>evaluateAll := Some ys\<rparr>) now s))
       = similarityCache (snd (find this page now s)) \<and>
     debugElementCount (snd (find this (page\<lparr>evaluateAll := Some ys\<rparr>) now s))
       = debugElementCount (snd (find this page now s)) \<and>
     debugElementCount (snd (find this page now s))
       \<le> debugElementCount this + 3 * nat \<lfloor>m\<rfloor>"
proof -
  let ?n = "nat \<lfloor>m\<rfloor>"
  let ?page' = "page\<lparr>evaluateAll := Some ys\<rparr>"
  have fails': "\<not> waitForOriginal ?page' s" using fails by simp
  have nocache': "domCache this (pageId ?page') = None" using nocache by simp
  have shown': "evaluateAll ?page' = Some ys" by simp
  have len: "length (take ?n xs) \<le> ?n" by simp
  have cu: "debugElementCount (snd (universalLoop this s (take ?n xs) None (Num 0) 0))
      \<le> debugElementCount this + 3 * ?n"
    using universalLoop_count[of this s "take ?n xs" None "Num 0" 0] len by linarith
  have cs: "debugElementCount (snd (simpleLoop this s (take ?n xs)))
      \<le> debugElementCount this + 3 * ?n"
    using simpleLoop_count[of this s "take ?n xs"] len by linarith
  have cc: "debugElementCount (snd (complexLoop this s (take ?n xs) []))
      \<le> debugElementCount this + 3 * ?n"
    using complexLoop_count[of this s "take ?n xs" "[]"] len by linarith
  have ca: "debugElementCount (snd (advancedLoop this s (getContextualElements page s) (take ?n xs) None 0))
      \<le> debugElementCount this + 3 * ?n"
    using advancedLoop_count[of this s "getContextualElements page s" "take ?n xs" None 0] len
    by linarith
  have u: "fst (findElementUniversal this ?page' now s) = fst (findElementUniversal this page now s) \<and>
     similarityCache (snd (findElementUniversal this ?page' now s))
       = similarityCache (snd (findElementUniversal this page now s)) \<and>
     debugElementCount (snd (findElementUniversal this ?page' now s))
       = debugElementCount (snd (findElementUniversal this page now s)) \<and>
     debugElementCount (snd (findElementUniversal this page now s)) \<le> debugElementCount this + 3 * ?n"
    using cu
    by (simp add: universal_heal[OF sel fails nocache shown limit nonneg]
        universal_heal[OF sel fails' nocache' shown' limit nonneg] agree healedLocator_evaluateAll
        split: option.splits)
  have si: "fst (findElementSimple this ?page' now s) = fst (findElementSimple this page now s) \<and>
     similarityCache (snd (findElementSimple this ?page' now s))
       = similarityCache (snd (findElementSimple this page now s)) \<and>
     debugElementCount (snd (findElementSimple this ?page' now s))
       = debugElementCount (snd (findElementSimple this page now s)) \<and>
     debugElementCount (snd (findElementSimple this page now s)) \<le> debugElementCount this + 3 * ?n"
    using cs
    by (simp add: simple_heal[OF sel fails nocache shown limit nonneg]
        simple_heal[OF sel fails' nocache' shown' limit nonneg] agree healedLocator_evaluateAll
        split: option.splits)
  have c: "fst (findElementComplex this ?page' now s) = fst (findElementComplex this page now s) \<and>
     similarityCache (snd (findElementComplex this ?page' now s))
       = similarityCache (snd (findElementComplex this page now s)) \<and>
     debugElementCount (snd (findElementComplex this ?page' now s))
       = debugElementCount (snd (findElementComplex this page now s)) \<and>
     debugElementCount (snd (findElementComplex this page now s)) \<le> debugElementCount this + 3 * ?n"
    using cc
    by (simp add: complex_heal[OF sel fails nocache shown limit nonneg]
        complex_heal[OF sel fails' nocache' shown' limit nonneg] agree healedLocator_evaluateAll
        split: list.splits)
  have a: "fst (findElementAdvanced this ?page' now s) = fst (findElementAdvanced this page now s) \<and>
     similarityCache (snd (findElementAdvanced this ?page' now s))
       = similarityCache (snd (findElementAdvanced this page now s)) \<and>
     debugElementCount (snd (findElementAdvanced this ?page' now s))
       = debugElementCount (snd (findElementAdvanced this page now s)) \<and>
     debugElementCount (snd (findElementAdvanced this page now s)) \<le> debugElementCount this + 3 * ?n"
    using ca
    by (simp add: advanced_heal[OF sel fails nocache shown limit nonneg]
        advanced_heal[OF sel fails' nocache' shown' limit nonneg] agree healedLocator_evaluateAll
        getContextualElements_evaluateAll split: option.splits)
  from u si c a show ?thesis by simp
qed

text \<open>
  Claim C8. In every strategy call in which the original selector fails, only the first
  \<open>maxElementsToAnalyze\<close> snapshots are claimed to be scored. On the page of 5 items, an
  instance made with the limit 3 computes 3 identifiers in \<open>findElementComplex\<close> and in
  \<open>findElementAdvanced\<close> and heals \<open>#item-03\<close> from the first 3 snapshots. After
  \<open>updateConfig({maxElementsToAnalyze: -1})\<close>, which throws and leaves \<open>-1\<close> in the instance,
  \<open>slice(0, -1)\<close> gives 4 snapshots: both operations compute 4 identifiers, and
  \<open>findElementComplex\<close> and \<open>findElementUniversal\<close> return the locator of the 4th snapshot.
\<close>

theorem invalid_limit_scans_beyond:
  "debugElementCount (snd (findElementComplex threeInstance (pageShowing fiveItems) 0 ''#item-03'')) = 3 \<and>
   debugElementCount (snd (findElementAdvanced threeInstance (pageShowing fiveItems) 0 ''#item-03'')) = 3 \<and>
   fst (findElementUniversal threeInstance (pageShowing fiveItems) 0 ''#item-03'')
     = Inr (Some (Locator 0 ''#item00'')) \<and>
   updateConfig threeInstance (noOverrides\<lparr>p_maxElementsToAnalyze := Some (Num (- 1))\<rparr>)
     = (Some (Error ''maxElementsToAnalyze must be between 1 and 1000''),
        threeInstance\<lparr>config := DEFAULT_CONFIG\<lparr>maxElementsToAnalyze := Num (- 1)\<rparr>\<rparr>) \<and>
   length fiveItems = 5 \<and>
   fiveItems ! 3 = numberedItem 3 \<and>
   generateOptimalSelector (numberedItem 3) = ''#item03'' \<and>
   debugElementCount
     (snd (findElementComplex
             (threeInstance\<lparr>config := DEFAULT_CONFIG\<lparr>maxElementsToAnalyze := Num (- 1)\<rparr>\<rparr>)
             (pageShowing fiveItems) 0 ''#item-03'')) = 4 \<and>
   debugElementCount
     (snd (findElementAdvanced
             (threeInstance\<lparr>config := DEFAULT_CONFIG\<lparr>maxElementsToAnalyze := Num (- 1)\<rparr>\<rparr>)
             (pageShowing fiveItems) 0 ''#item-03'')) = 4 \<and>
   fst (findElementComplex
          (threeInstance\<lparr>config := DEFAULT_CONFIG\<lparr>maxElementsToAnalyze := Num (- 1)\<rparr>\<rparr>)
          (pageShowing fiveItems) 0 ''#item-03'')
     = Inr (Some (Locator 0 ''#item03'')) \<and>
   fst (findElementUniversal
          (threeInstance\<lparr>config := DEFAULT_CONFIG\<lparr>maxElementsToAnalyze := Num (- 1)\<rparr>\<rparr>)
          (pageShowing fiveItems) 0 ''#item-03'')
     = Inr (Some (Locator 0 ''#item03''))"
proof -
  have a: "debugElementCount (snd (findElementComplex threeInstance (pageShowing fiveItems) 0 ''#item-03'')) = 3"
    by code_simp
  have b: "debugElementCount (snd (findElementAdvanced threeInstance (pageShowing fiveItems) 0 ''#item-03'')) = 3"
    by code_simp
  have c: "fst (findElementUniversal threeInstance (pageShowing fiveItems) 0 ''#item-03'')
     = Inr (Some (Locator 0 ''#item00''))"
    by code_simp
  have d: "updateConfig threeInstance (noOverrides\<lparr>p_maxElementsToAnalyze := Some (Num (- 1))\<rparr>)
     = (Some (Error ''maxElementsToAnalyze must be between 1 and 1000''),
        threeInstance\<lparr>config := DEFAULT_CONFIG\<lparr>maxElementsToAnalyze := Num (- 1)\<rparr>\<rparr>)"
    by (simp add: updateConfig_def threeInstance_def defaultInstance_def spread_def noOverrides_def
        DEFAULT_CONFIG_def validateConfig_def jsLess_def jsGreater_def)
  have e: "length fiveItems = 5"
    by (simp add: fiveItems_def)
  have f: "fiveItems ! 3 = numberedItem 3"
    by (simp add: fiveItems_def del: upt_Suc)
  have g: "generateOptimalSelector (numberedItem 3) = ''#item03''"
    by code_simp
  have h: "debugElementCount
     (snd (findElementComplex
             (threeInstance\<lparr>config := DEFAULT_CONFIG\<lparr>maxElementsToAnalyze := Num (- 1)\<rparr>\<rparr>)
             (pageShowing fiveItems) 0 ''#item-03'')) = 4"
    by code_simp
  have i: "debugElementCount
     (snd (findElementAdvanced
             (threeInstance\<lparr>config := DEFAULT_CONFIG\<lparr>maxElementsToAnalyze := Num (- 1)\<rparr>\<rparr>)
             (pageShowing fiveItems) 0 ''#item-03'')) = 4"
    by code_simp
  have j: "fst (findElementComplex
          (threeInstance\<lparr>config := DEFAULT_CONFIG\<lparr>maxElementsToAnalyze := Num (- 1)\<rparr>\<rparr>)
          (pageShowing fiveItems) 0 ''#item-03'')
     = Inr (Some (Locator 0 ''#item03''))"
    by code_simp
  have k: "fst (findElementUniversal
          (threeInstance\<lparr>config := DEFAULT_CONFIG\<lparr>maxElementsToAnalyze := Num (- 1)\<rparr>\<rparr>)
          (pageShowing fiveItems) 0 ''#item-03'')
     = Inr (Some (Locator 0 ''#item03''))"
    by code_simp
  from a b c d e f g h i j k show ?thesis by (intro conjI)
qed

section \<open>First match against best match\<close>

lemma calculateComprehensiveSimilarity_cong:
  "config t = config t' \<Longrightarrow> similarityCache t = similarityCache t' \<Longrightarrow>
   fst (calculateComprehensiveSimilarity t s e) = fst (calculateComprehensiveSimilarity t' s e)"
  by (simp add: calculateComprehensiveSimilarity_def calculateSemanticSimilarity_def
      getElementIdentifier_def Let_def split: option.splits)

lemma getElementIdentifier_similarityCache:
  "similarityCache (snd (getElementIdentifier this e)) = similarityCache this"
  by (simp add: getElementIdentifier_def)

lemma simpleLoop_first:
  assumes "jsGreaterEq (Num (calculateLevenshteinSimilarity s (elementIdentifier A)))
             (minSimilarityThreshold (config this))"
  shows "fst (simpleLoop this s (A # rest)) = Some A"
  using assms by (simp add: Let_def case_prod_beta getElementIdentifier_def)

lemma universalLoop_accept:
  assumes "jsGreater (fst (calculateComprehensiveSimilarity this s e)) bs"
    and "jsGreaterEq (fst (calculateComprehensiveSimilarity this s e))
           (minSimilarityThreshold (config this))"
  shows "\<exists>t. universalLoop this s (e # es) best bs cnt =
            universalLoop t s es (Some e) (fst (calculateComprehensiveSimilarity this s e)) (Suc cnt) \<and>
          config t = config this \<and>
          similarityCache t = similarityCache (snd (calculateComprehensiveSimilarity this s e))"
proof (cases "truthy (debug (config this)) \<and> cnt < 5")
  case True
  show ?thesis
    by (rule exI[of _ "snd (getElementIdentifier (snd (calculateComprehensiveSimilarity this s e)) e)"])
       (use True assms in \<open>simp add: Let_def case_prod_beta calculateComprehensiveSimilarity_config
          getElementIdentifier_config getElementIdentifier_similarityCache\<close>)
next
  case False
  show ?thesis
    by (rule exI[of _ "snd (calculateComprehensiveSimilarity this s e)"])
       (use False assms in \<open>auto simp add: Let_def case_prod_beta calculateComprehensiveSimilarity_config\<close>)
qed

lemma universalLoop_two:
  assumes thr: "minSimilarityThreshold (config this) = Num 0.1"
    and a: "fst (calculateComprehensiveSimilarity this s A) = Num 0.15"
    and b: "fst (calculateComprehensiveSimilarity (snd (calculateComprehensiveSimilarity this s A)) s B)
              = Num 0.9"
  shows "fst (universalLoop this s [A, B] None (Num 0) 0) = Some B"
proof -
  let ?va = "fst (calculateComprehensiveSimilarity this s A)"
  have "jsGreater ?va (Num 0)" "jsGreaterEq ?va (minSimilarityThreshold (config this))"
    unfolding a thr by (simp_all add: jsGreater_def jsGreaterEq_def)
  from universalLoop_accept[OF this, of "[B]" None 0]
  obtain t1 where s1: "universalLoop this s [A, B] None (Num 0) 0
        = universalLoop t1 s [B] (Some A) ?va (Suc 0)"
    and c1: "config t1 = config this"
    and m1: "similarityCache t1 = similarityCache (snd (calculateComprehensiveSimilarity this s A))"
    by blast
  let ?vb = "fst (calculateComprehensiveSimilarity t1 s B)"
  have "config t1 = config (snd (calculateComprehensiveSimilarity this s A))"
    using c1 by (simp only: calculateComprehensiveSimilarity_config)
  from this m1
  have "?vb = fst (calculateComprehensiveSimilarity (snd (calculateComprehensiveSimilarity this s A)) s B)"
    by (rule calculateComprehensiveSimilarity_cong)
  with b have vb: "?vb = Num 0.9" by simp
  have "jsGreater ?vb ?va" "jsGreaterEq ?vb (minSimilarityThreshold (config t1))"
    unfolding vb a c1 thr by (simp_all add: jsGreater_def jsGreaterEq_def)
  from universalLoop_accept[OF this, of "[]" "Some A" "Suc 0"]
  obtain t2 where s2: "universalLoop t1 s [B] (Some A) ?va (Suc 0)
        = universalLoop t2 s [] (Some B) ?vb (Suc (Suc 0))"
    by blast
  show ?thesis unfolding s1 s2 by simp
qed

lemma complexLoop_two:
  assumes thr: "minSimilarityThreshold (config this) = Num 0.1"
    and a: "semanticScore s (elementIdentifier A) * 0.6 + calculateStructuralSimilarity s A * 0.4 = 0.15"
    and b: "semanticScore s (elementIdentifier B) * 0.6 + calculateStructuralSimilarity s B * 0.4 = 0.9"
  shows "sortByScore (fst (complexLoop this s [A, B] [])) = [(B, 0.9), (A, 0.15)]"
  using assms
  by (simp add: Let_def case_prod_beta calculateSemanticSimilarity_def getElementIdentifier_def
      sortByScore_def jsGreaterEq_def)

text \<open>
  Claim C5. On a page whose snapshots are A, then B, once the original selector has failed,
  with threshold 0.1 and at least two elements analysed: if the lexical score of A is 0.15,
  \<open>findElementSimple\<close> returns the locator synthesized from A; if the composite scores are
  0.15 for A and 0.9 for B, \<open>findElementUniversal\<close> returns the locator synthesized from B; if
  the scores \<open>semantic * 0.6 + structural * 0.4\<close> are 0.15 for A and 0.9 for B,
  \<open>findElementComplex\<close> returns the locator synthesized from B.
\<close>

theorem strategies_diverge:
  assumes sel: "isValidSelector s"
    and fails: "\<not> waitForOriginal page s"
    and nocache: "domCache this (pageId page) = None"
    and shown: "evaluateAll page = Some [A, B]"
    and thr: "minSimilarityThreshold (config this) = Num 0.1"
    and two: "jsGreaterEq (maxElementsToAnalyze (config this)) (Num 2)"
  shows
    "(calculateLevenshteinSimilarity s (elementIdentifier A) = 0.15 \<longrightarrow>
        fst (findElementSimple this page now s) = Inr (Some (healedLocator page A))) \<and>
     (fst (calculateComprehensiveSimilarity this s A) = Num 0.15 \<and>
      fst (calculateComprehensiveSimilarity (snd (calculateComprehensiveSimilarity this s A)) s B)
        = Num 0.9 \<longrightarrow>
        fst (findElementUniversal this page now s) = Inr (Some (healedLocator page B))) \<and>
     (semanticScore s (elementIdentifier A) * 0.6 + calculateStructuralSimilarity s A * 0.4 = 0.15 \<and>
      semanticScore s (elementIdentifier B) * 0.6 + calculateStructuralSimilarity s B * 0.4 = 0.9 \<longrightarrow>
        fst (findElementComplex this page now s) = Inr (Some (healedLocator page B)))"
proof -
  from two obtain m where limit: "maxElementsToAnalyze (config this) = Num m" and m2: "2 \<le> m"
    by (auto simp: jsGreaterEq_def split: jsvalue.splits)
  have nonneg: "0 \<le> m" using m2 by simp
  have "2 \<le> \<lfloor>m\<rfloor>" using m2 by linarith
  then have "2 \<le> nat \<lfloor>m\<rfloor>" by linarith
  then have all: "take (nat \<lfloor>m\<rfloor>) [A, B] = [A, B]" by simp
  have simple: "fst (findElementSimple this page now s) = Inr (Some (healedLocator page A))"
    if "calculateLevenshteinSimilarity s (elementIdentifier A) = 0.15"
  proof -
    have "jsGreaterEq (Num (calculateLevenshteinSimilarity s (elementIdentifier A)))
            (minSimilarityThreshold (config this))"
      unfolding that thr by (simp add: jsGreaterEq_def)
    then have "fst (simpleLoop this s [A, B]) = Some A" by (rule simpleLoop_first)
    then show ?thesis
      by (simp add: simple_heal[OF sel fails nocache shown limit nonneg] all)
  qed
  have universal: "fst (findElementUniversal this page now s) = Inr (Some (healedLocator page B))"
    if "fst (calculateComprehensiveSimilarity this s A) = Num 0.15"
      and "fst (calculateComprehensiveSimilarity (snd (calculateComprehensiveSimilarity this s A)) s B)
             = Num 0.9"
  proof -
    from thr that have "fst (universalLoop this s [A, B] None (Num 0) 0) = Some B"
      by (rule universalLoop_two)
    then show ?thesis
      by (simp add: universal_heal[OF sel fails nocache shown limit nonneg] all)
  qed
  have complex: "fst (findElementComplex this page now s) = Inr (Some (healedLocator page B))"
    if "semanticScore s (elementIdentifier A) * 0.6 + calculateStructuralSimilarity s A * 0.4 = 0.15"
      and "semanticScore s (elementIdentifier B) * 0.6 + calculateStructuralSimilarity s B * 0.4 = 0.9"
  proof -
    from thr that have "sortByScore (fst (complexLoop this s [A, B] [])) = [(B, 0.9), (A, 0.15)]"
      by (rule complexLoop_two)
    then show ?thesis
      by (simp add: complex_heal[OF sel fails nocache shown limit nonneg] all)
  qed
  from simple universal complex show ?thesis by blast
qed

theorem strategies_diverge_witness:
  "isValidSelector cartSelector \<and>
   minSimilarityThreshold (config semanticInstance) = Num 0.1 \<and>
   jsGreaterEq (maxElementsToAnalyze (config semanticInstance)) (Num 2) \<and>
   calculateLevenshteinSimilarity cartSelector (elementIdentifier blogHeading) = 0.15 \<and>
   fst (calculateComprehensiveSimilarity semanticInstance cartSelector blogHeading) = Num 0.15 \<and>
   fst (calculateComprehensiveSimilarity
          (snd (calculateComprehensiveSimilarity semanticInstance cartSelector blogHeading))
          cartSelector cartLink) = Num 0.9 \<and>
   semanticScore cartSelector (elementIdentifier blogHeading) * 0.6 +
     calculateStructuralSimilarity cartSelector blogHeading * 0.4 = 0.15 \<and>
   semanticScore cartSelector (elementIdentifier cartLink) * 0.6 +
     calculateStructuralSimilarity cartSelector cartLink * 0.4 = 0.9 \<and>
   fst (findElementSimple semanticInstance (pageShowing [blogHeading, cartLink]) 0 cartSelector)
     = Inr (Some (healedLocator (pageShowing [blogHeading, cartLink]) blogHeading)) \<and>
   fst (findElementUniversal semanticInstance (pageShowing [blogHeading, cartLink]) 0 cartSelector)
     = Inr (Some (healedLocator (pageShowing [blogHeading, cartLink]) cartLink)) \<and>
   fst (findElementComplex semanticInstance (pageShowing [blogHeading, cartLink]) 0 cartSelector)
     = Inr (Some (healedLocator (pageShowing [blogHeading, cartLink]) cartLink)) \<and>
   healedLocator (pageShowing [blogHeading, cartLink]) blogHeading = Locator 0 ''h2'' \<and>
   healedLocator (pageShowing [blogHeading, cartLink]) cartLink = Locator 0 ''#go-to-my-cart''"
proof -
  have sel: "isValidSelector cartSelector" by code_simp
  have fails: "\<not> waitForOriginal (pageShowing [blogHeading, cartLink]) cartSelector"
    by (simp add: pageShowing_def)
  have nocache: "domCache semanticInstance (pageId (pageShowing [blogHeading, cartLink])) = None"
    by (simp add: semanticInstance_def defaultInstance_def)
  have shown: "evaluateAll (pageShowing [blogHeading, cartLink]) = Some [blogHeading, cartLink]"
    by (simp add: pageShowing_def)
  have thr: "minSimilarityThreshold (config semanticInstance) = Num 0.1"
    by (simp add: semanticInstance_def DEFAULT_CONFIG_def)
  have two: "jsGreaterEq (maxElementsToAnalyze (config semanticInstance)) (Num 2)"
    by (simp add: semanticInstance_def DEFAULT_CONFIG_def jsGreaterEq_def)
  have la: "calculateLevenshteinSimilarity cartSelector (elementIdentifier blogHeading) = 0.15"
    by code_simp
  have ua: "fst (calculateComprehensiveSimilarity semanticInstance cartSelector blogHeading) = Num 0.15"
    by code_simp
  have ub: "fst (calculateComprehensiveSimilarity
          (snd (calculateComprehensiveSimilarity semanticInstance cartSelector blogHeading))
          cartSelector cartLink) = Num 0.9"
    by code_simp
  have ca: "semanticScore cartSelector (elementIdentifier blogHeading) * 0.6 +
     calculateStructuralSimilarity cartSelector blogHeading * 0.4 = 0.15"
    by code_simp
  have cb: "semanticScore cartSelector (elementIdentifier cartLink) * 0.6 +
     calculateStructuralSimilarity cartSelector cartLink * 0.4 = 0.9"
    by code_simp
  have ha: "healedLocator (pageShowing [blogHeading, cartLink]) blogHeading = Locator 0 ''h2''"
    by code_simp
  have hb: "healedLocator (pageShowing [blogHeading, cartLink]) cartLink = Locator 0 ''#go-to-my-cart''"
    by code_simp
  note d = strategies_diverge[OF sel fails nocache shown thr two, of 0]
  from d la have r1: "fst (findElementSimple semanticInstance (pageShowing [blogHeading, cartLink]) 0 cartSelector)
     = Inr (Some (healedLocator (pageShowing [blogHeading, cartLink]) blogHeading))"
    by blast
  from d ua ub have r2: "fst (findElementUniversal semanticInstance (pageShowing [blogHeading, cartLink]) 0 cartSelector)
     = Inr (Some (healedLocator (pageShowing [blogHeading, cartLink]) cartLink))"
    by blast
  from d ca cb have r3: "fst (findElementComplex semanticInstance (pageShowing [blogHeading, cartLink]) 0 cartSelector)
     = Inr (Some (healedLocator (pageShowing [blogHeading, cartLink]) cartLink))"
    by blast
  from sel thr two la ua ub ca cb r1 r2 r3 ha hb show ?thesis by (intro conjI)
qed

end
